theory Spec2Isabelle
  imports Complex_Main "HOL-Library.Monad_Syntax"
begin

section \<open>JavaScript values\<close>

text \<open>
  The service handles parsed JSON bodies and the values JavaScript builds from them.
  A number is an IEEE double: the special values are constructors of their own and every
  finite double is a rational, so \<open>Fin\<close> ranges over a superset of the finite doubles
  (\<open>Fin 0\<close> is \<open>+0\<close>). An object is an association list looked up at its first match;
  \<open>undefined\<close> is a value of its own. There are no function values: nothing that comes
  out of \<open>JSON.parse\<close> is callable.
\<close>

datatype jsnum = NaN | PosInfinity | NegInfinity | NegZero | Fin rat

datatype jsval =
    JUndefined
  | JNull
  | JBool bool
  | JNum jsnum
  | JStr string
  | JArr "jsval list"
  | JObj "(string \<times> jsval) list"

text \<open>
  The parts of the JavaScript runtime and of the process that the source calls but does
  not define: \<open>process.env\<close>, the text of a number that is not a small integer,
  \<open>parseFloat\<close> on a string, \<open>Number\<close> on a string, and \<open>JSON.stringify\<close> read
  inside a template literal. Every theorem below holds for all of them.
\<close>

record runtime =
  env :: "string \<Rightarrow> string option"
  number_str :: "rat \<Rightarrow> string"
  parse_float :: "string \<Rightarrow> jsnum"
  string_to_number :: "string \<Rightarrow> jsnum"
  json_stringify :: "jsval \<Rightarrow> string"

text \<open>Thrown values: \<open>new Error(message)\<close>, the same with \<open>statusCode\<close> and
  \<open>pikndelData\<close> assigned to it, and the engine's \<open>TypeError\<close>.\<close>

datatype js_error =
    Error string
  | PikndelError string int jsval
  | TypeError

definition nullish :: "jsval \<Rightarrow> bool" where
  "nullish v = (v = JUndefined \<or> v = JNull)"

fun truthy :: "jsval \<Rightarrow> bool" where
  "truthy JUndefined = False"
| "truthy JNull = False"
| "truthy (JBool b) = b"
| "truthy (JNum n) = (n \<noteq> NaN \<and> n \<noteq> NegZero \<and> n \<noteq> Fin 0)"
| "truthy (JStr s) = (s \<noteq> [])"
| "truthy (JArr xs) = True"
| "truthy (JObj kvs) = True"

text \<open>\<open>a || b\<close> and \<open>a ?? b\<close> where \<open>b\<close> cannot throw.\<close>

definition js_or :: "jsval \<Rightarrow> jsval \<Rightarrow> jsval" where
  "js_or a b = (if truthy a then a else b)"

definition nullish_coalesce :: "jsval \<Rightarrow> jsval \<Rightarrow> jsval" where
  "nullish_coalesce a b = (if nullish a then b else a)"

text \<open>
  \<open>v.k\<close> for the property names the source reads. None of them is an index, \<open>length\<close>
  or a member of a built-in prototype, so on a string, number, boolean or array the
  read gives \<open>undefined\<close>; on \<open>undefined\<close> and \<open>null\<close> it throws a TypeError
  (\<open>None\<close>), and \<open>v?.k\<close> gives \<open>undefined\<close> there.
\<close>

fun property :: "jsval \<Rightarrow> string \<Rightarrow> jsval" where
  "property (JObj kvs) k = (case map_of kvs k of Some v \<Rightarrow> v | None \<Rightarrow> JUndefined)"
| "property v k = JUndefined"

definition get :: "jsval \<Rightarrow> string \<Rightarrow> jsval option" where
  "get v k = (if nullish v then None else Some (property v k))"

definition opt_get :: "jsval \<Rightarrow> string \<Rightarrow> jsval" where
  "opt_get v k = (if nullish v then JUndefined else property v k)"

fun isArray :: "jsval \<Rightarrow> bool" where
  "isArray (JArr xs) = True"
| "isArray v = False"

fun elems :: "jsval \<Rightarrow> jsval list" where
  "elems (JArr xs) = xs"
| "elems v = []"

text \<open>\<open>xs[0]\<close> on an array: \<open>undefined\<close> when it is empty.\<close>

fun first_elem :: "jsval list \<Rightarrow> jsval" where
  "first_elem [] = JUndefined"
| "first_elem (x # xs) = x"

subsection \<open>Conversion to string\<close>

fun digits :: "nat \<Rightarrow> string" where
  "digits n =
     (if n < 10 then [''0123456789'' ! n]
      else digits (n div 10) @ [''0123456789'' ! (n mod 10)])"

declare digits.simps [simp del]

definition is_integer :: "rat \<Rightarrow> bool" where
  "is_integer q = (of_int \<lfloor>q\<rfloor> = q)"

text \<open>\<open>Number::toString\<close>: the decimal digits of an integer below \<open>2^53\<close> in
  absolute value, where every integer is a double and prints exactly; the runtime's text
  for every other number (a fraction, or a larger double, which prints its shortest
  round-trip digits followed by zeros or in exponent form).\<close>

definition Number_toString :: "runtime \<Rightarrow> jsnum \<Rightarrow> string" where
  "Number_toString rt n =
     (case n of
        NaN \<Rightarrow> ''NaN''
      | PosInfinity \<Rightarrow> ''Infinity''
      | NegInfinity \<Rightarrow> ''-Infinity''
      | NegZero \<Rightarrow> ''0''
      | Fin q \<Rightarrow>
          if is_integer q \<and> \<bar>q\<bar> < 2 ^ 53
          then (if q < 0 then ''-'' else '''') @ digits (nat \<bar>\<lfloor>q\<rfloor>\<bar>)
          else number_str rt q)"

text \<open>\<open>Array.prototype.join\<close> with the separator \<open>,\<close> over the elements' strings;
  it throws as soon as one element does.\<close>

fun join_strings :: "string option list \<Rightarrow> string option" where
  "join_strings [] = Some ''''"
| "join_strings [r] = r"
| "join_strings (r # rs) =
     (case r of
        None \<Rightarrow> None
      | Some s \<Rightarrow> (case join_strings rs of None \<Rightarrow> None | Some t \<Rightarrow> Some (s @ '','' @ t)))"

text \<open>
  \<open>ToString\<close>, as \<open>String(v)\<close> and a template literal apply it; \<open>None\<close> is the
  TypeError. An array joins its elements, \<open>undefined\<close> and \<open>null\<close> elements as the
  empty string. A parsed object prints as \<open>[object Object]\<close> unless it has an own
  \<open>toString\<close> key: that value is not callable, \<open>valueOf\<close> gives no primitive either,
  and the conversion throws.
\<close>

fun ToString :: "runtime \<Rightarrow> jsval \<Rightarrow> string option" where
  "ToString rt JUndefined = Some ''undefined''"
| "ToString rt JNull = Some ''null''"
| "ToString rt (JBool b) = Some (if b then ''true'' else ''false'')"
| "ToString rt (JNum n) = Some (Number_toString rt n)"
| "ToString rt (JStr s) = Some s"
| "ToString rt (JArr xs) =
     join_strings (map (\<lambda>x. if nullish x then Some '''' else ToString rt x) xs)"
| "ToString rt (JObj kvs) =
     (if ''toString'' \<in> fst ` set kvs then None else Some ''[object Object]'')"

definition js_String :: "runtime \<Rightarrow> jsval \<Rightarrow> jsval option" where
  "js_String rt v = map_option JStr (ToString rt v)"

text \<open>\<open>parseFloat(v)\<close> converts its argument to a string first.\<close>

definition parseFloat :: "runtime \<Rightarrow> jsval \<Rightarrow> jsval option" where
  "parseFloat rt v = map_option (\<lambda>s. JNum (parse_float rt s)) (ToString rt v)"

text \<open>\<open>xs.map(f)\<close>: a TypeError when \<open>xs\<close> is not an array or when \<open>f\<close> throws.\<close>

definition Array_map :: "(jsval \<Rightarrow> jsval option) \<Rightarrow> jsval \<Rightarrow> jsval option" where
  "Array_map f v =
     (case v of JArr xs \<Rightarrow> map_option JArr (those (map f xs)) | _ \<Rightarrow> None)"

definition env_value :: "runtime \<Rightarrow> string \<Rightarrow> jsval" where
  "env_value rt k = (case env rt k of Some s \<Rightarrow> JStr s | None \<Rightarrow> JUndefined)"

section \<open>The provider client (services/pikndelService.js)\<close>

text \<open>
  The module's one piece of state is \<open>cachedToken\<close>, \<open>null\<close> at start. Each function
  takes it and returns its new value. What the outside world supplies to one outbound
  call is gathered in \<open>io\<close>: the identifier \<open>uuidv4()\<close> returns, the clock, and
  what comes back from the network.
\<close>

datatype wire = Reply int jsval | NoReply string

record io =
  uuid :: string
  now_ms :: int
  reply :: wire

text \<open>What \<open>axios(config)\<close> settles to. With its default \<open>validateStatus\<close> the
  promise resolves for a status in \<open>200..299\<close> and rejects with \<open>err.response\<close> set
  for any other status; without a response it rejects with a message only.\<close>

datatype axios_result =
    Resolved int jsval
  | Rejected "(int \<times> jsval) option" string

definition axios :: "runtime \<Rightarrow> wire \<Rightarrow> axios_result" where
  "axios rt w =
     (case w of
        Reply status data \<Rightarrow>
          if 200 \<le> status \<and> status < 300 then Resolved status data
          else Rejected (Some (status, data))
                 (''Request failed with status code '' @ Number_toString rt (Fin (of_int status)))
      | NoReply msg \<Rightarrow> Rejected None msg)"

record http_request =
  req_method :: string
  req_url :: string
  req_headers :: "(string \<times> string) list"
  req_body :: jsval
  req_timeout :: nat

record request_opts =
  http_method :: string
  path :: string
  data :: jsval
  version :: jsval
  auth :: bool
  wrapInData :: bool

text \<open>The defaults of the destructured parameter of \<open>request\<close>.\<close>

definition default_opts :: "string \<Rightarrow> request_opts" where
  "default_opts p =
     \<lparr>http_method = ''post'', path = p, data = JObj [], version = JNum (Fin 1),
      auth = True, wrapInData = False\<rparr>"

definition strip_trailing_slash :: "string \<Rightarrow> string" where
  "strip_trailing_slash s = (if s \<noteq> [] \<and> last s = CHR ''/'' then butlast s else s)"

definition BASE_URL :: "runtime \<Rightarrow> string" where
  "BASE_URL rt =
     strip_trailing_slash
       (case env rt ''PIKNDEL_BASE_URL'' of
          Some s \<Rightarrow> if s \<noteq> [] then s else ''https://api.pikndel.com''
        | None \<Rightarrow> ''https://api.pikndel.com'')"

definition buildControl :: "runtime \<Rightarrow> io \<Rightarrow> jsval \<Rightarrow> jsval option" where
  "buildControl rt w ver =
     (case ToString rt ver of
        None \<Rightarrow> None
      | Some v \<Rightarrow>
          Some (JObj
            [(''RequestId'', JStr (uuid w)),
             (''Source'',
                JNum (case env rt ''PIKNDEL_SOURCE'' of
                        Some s \<Rightarrow> if s \<noteq> [] then string_to_number rt s else Fin 3
                      | None \<Rightarrow> Fin 3)),
             (''RequestTime'', JNum (Fin (of_int (now_ms w div 1000)))),
             (''Version'', JStr v)]))"

text \<open>The error an \<open>Object.assign(new Error(...), {statusCode, pikndelData})\<close> builds;
  the template literal converts \<open>detail\<close> to a string, which can throw instead.\<close>

definition status_error :: "runtime \<Rightarrow> string \<Rightarrow> jsval \<Rightarrow> int \<Rightarrow> jsval \<Rightarrow> js_error" where
  "status_error rt prefix detail code d =
     (case ToString rt detail of
        None \<Rightarrow> TypeError
      | Some s \<Rightarrow> PikndelError (prefix @ s) code d)"

definition handlePikndelResponse ::
  "runtime \<Rightarrow> jsval \<Rightarrow> int \<Rightarrow> jsval \<Rightarrow> (js_error + jsval) \<times> jsval" where
  "handlePikndelResponse rt cachedToken status d =
     (if status = 200 then (Inr d, cachedToken)
      else if status = 400 then
        (Inl (status_error rt ''PIKNDEL Bad Request (400): ''
                (js_or (opt_get d ''Message'') (JStr (json_stringify rt d))) 400 d),
         cachedToken)
      else if status = 401 then
        (Inl (status_error rt ''PIKNDEL Unauthorized (401): ''
                (js_or (opt_get d ''Message'') (JStr ''Invalid or expired token.'')) 401 d),
         JNull)
      else if status = 500 then
        (Inl (status_error rt ''PIKNDEL Internal Server Error (500): ''
                (js_or (opt_get d ''Message'') (JStr (json_stringify rt d))) 500 d),
         cachedToken)
      else
        (Inl (PikndelError
                (''PIKNDEL Unexpected Response ('' @ Number_toString rt (Fin (of_int status))
                   @ ''): '' @ json_stringify rt d) status d),
         cachedToken))"

text \<open>\<open>err.message\<close>; the text of an engine TypeError is the engine's own.\<close>

fun error_message :: "js_error \<Rightarrow> string" where
  "error_message (Error m) = m"
| "error_message (PikndelError m c d) = m"
| "error_message TypeError = ''TypeError''"

definition network_error :: "string \<Rightarrow> string \<Rightarrow> js_error" where
  "network_error p m = Error (''Network error calling PIKNDEL ['' @ p @ '']: '' @ m)"

definition request_headers :: "runtime \<Rightarrow> jsval \<Rightarrow> bool \<Rightarrow> (string \<times> string) list option" where
  "request_headers rt cachedToken a =
     (if a \<and> truthy cachedToken then
        (case ToString rt cachedToken of
           None \<Rightarrow> None
         | Some t \<Rightarrow>
             Some [(''Content-Type'', ''application/json''), (''Accept'', ''application/json''),
                   (''Authorization'', ''Bearer '' @ t)])
      else Some [(''Content-Type'', ''application/json''), (''Accept'', ''application/json'')])"

text \<open>The own enumerable entries \<open>{...v}\<close> copies.\<close>

fun spread_entries :: "jsval \<Rightarrow> (string \<times> jsval) list" where
  "spread_entries (JObj kvs) = kvs"
| "spread_entries (JArr xs) = zip (map digits [0..<length xs]) xs"
| "spread_entries (JStr s) = zip (map digits [0..<length s]) (map (\<lambda>c. JStr [c]) s)"
| "spread_entries v = []"

text \<open>The body: \<open>{Control, Data: data}\<close>, or \<open>{Control, ...data}\<close> where an entry of
  \<open>data\<close> named \<open>Control\<close> wins (the list is read at its first match).\<close>

definition request_body :: "runtime \<Rightarrow> io \<Rightarrow> request_opts \<Rightarrow> jsval option" where
  "request_body rt w opts =
     (case buildControl rt w (version opts) of
        None \<Rightarrow> None
      | Some c \<Rightarrow>
          Some (if wrapInData opts then JObj [(''Control'', c), (''Data'', data opts)]
                else JObj (spread_entries (data opts) @ [(''Control'', c)])))"

text \<open>
  \<open>request\<close> returns what the caller gets (\<open>Inl\<close> what is thrown), the new
  \<open>cachedToken\<close>, and the calls handed to axios. An error that
  \<open>handlePikndelResponse\<close> throws inside the \<open>try\<close> block is caught by the
  \<open>catch\<close> of \<open>request\<close> itself: it has no \<open>response\<close> field and is thrown again
  as a network error.
\<close>

definition request ::
  "runtime \<Rightarrow> jsval \<Rightarrow> request_opts \<Rightarrow> io \<Rightarrow> (js_error + jsval) \<times> jsval \<times> http_request list" where
  "request rt cachedToken opts w =
     (case request_headers rt cachedToken (auth opts) of
        None \<Rightarrow> (Inl TypeError, cachedToken, [])
      | Some headers \<Rightarrow>
          (case request_body rt w opts of
             None \<Rightarrow> (Inl TypeError, cachedToken, [])
           | Some body \<Rightarrow>
               (let sent = \<lparr>req_method = http_method opts, req_url = BASE_URL rt @ path opts,
                             req_headers = headers, req_body = body, req_timeout = 15000\<rparr>
                in case axios rt (reply w) of
                     Resolved status d \<Rightarrow>
                       (case handlePikndelResponse rt cachedToken status d of
                          (Inr r, tok) \<Rightarrow> (Inr r, tok, [sent])
                        | (Inl err, tok) \<Rightarrow>
                            (Inl (network_error (path opts) (error_message err)), tok, [sent]))
                   | Rejected (Some (status, d)) msg \<Rightarrow>
                       (case handlePikndelResponse rt cachedToken status d of
                          (r, tok) \<Rightarrow> (r, tok, [sent]))
                   | Rejected None msg \<Rightarrow>
                       (Inl (network_error (path opts) msg), cachedToken, [sent]))))"

subsection \<open>login\<close>

text \<open>The first truthy value of \<open>response?.Data?.Token || response?.Token ||
  response?.token || response?.access_token\<close>, or the last operand.\<close>

definition extract_token :: "jsval \<Rightarrow> jsval" where
  "extract_token response =
     js_or (opt_get (opt_get response ''Data'') ''Token'')
       (js_or (opt_get response ''Token'')
          (js_or (opt_get response ''token'') (opt_get response ''access_token'')))"

definition login ::
  "runtime \<Rightarrow> jsval \<Rightarrow> jsval \<Rightarrow> jsval \<Rightarrow> io \<Rightarrow> (js_error + jsval) \<times> jsval \<times> http_request list" where
  "login rt cachedToken username password w =
     (let Username = js_or username (env_value rt ''PIKNDEL_USERNAME'');
          Password = js_or password (env_value rt ''PIKNDEL_PASSWORD'')
      in if \<not> truthy Username \<or> \<not> truthy Password then
           (Inl (Error ''PIKNDEL credentials are missing. Set PIKNDEL_USERNAME and PIKNDEL_PASSWORD.''),
            cachedToken, [])
         else
           (case request rt cachedToken
                   ((default_opts ''/backoffice/api/account/login'')
                      \<lparr>version := JNum (Fin (13 / 10)), auth := False, wrapInData := True,
                       data := JObj [(''Username'', Username), (''Password'', Password),
                                     (''GrantType'', JStr ''password'')]\<rparr>) w of
              (Inl err, tok, calls) \<Rightarrow> (Inl err, tok, calls)
            | (Inr response, tok, calls) \<Rightarrow>
                (let token = extract_token response in
                 if \<not> truthy token then
                   (Inl (Error ''Login succeeded but no JWT token was returned by PIKNDEL.''),
                    tok, calls)
                 else
                   (let userId = js_or (opt_get (opt_get response ''Data'') ''UserId'')
                                   (js_or (opt_get response ''UserId'') JNull)
                    in case ToString rt userId of
                         None \<Rightarrow> (Inl TypeError, token, calls)
                       | Some u \<Rightarrow>
                           (Inr (JObj [(''token'', token), (''userId'', userId),
                                       (''name'', js_or (opt_get (opt_get response ''Data'') ''Name'')
                                                    JNull)]),
                            token, calls)))))"

subsection \<open>placeOrder\<close>

text \<open>\<open>Array.isArray(od.Info) ? od.Info[0] : od.Info\<close>, for an \<open>od\<close> that is neither
  \<open>undefined\<close> nor \<open>null\<close>.\<close>

definition info_entry :: "jsval \<Rightarrow> jsval" where
  "info_entry od =
     (if isArray (property od ''Info'') then first_elem (elems (property od ''Info''))
      else property od ''Info'')"

text \<open>The validation block. Reading a field of \<open>OrderDetails[0]\<close> throws a TypeError
  when that element is \<open>null\<close>, as destructuring a \<open>null\<close> payload does.\<close>

definition placeOrder_validate :: "jsval \<Rightarrow> js_error + unit" where
  "placeOrder_validate orderPayload =
     (if nullish orderPayload then Inl TypeError
      else
        let UserId = property orderPayload ''UserId'';
            OrderDetails = property orderPayload ''OrderDetails''
        in if \<not> truthy UserId then Inl (Error ''placeOrder: UserId is required.'')
           else if \<not> isArray OrderDetails \<or> length (elems OrderDetails) = 0 then
             Inl (Error ''placeOrder: OrderDetails must be a non-empty array.'')
           else
             let od = first_elem (elems OrderDetails)
             in if nullish od then Inl TypeError
                else if \<not> truthy (property od ''ClientUniqueNo'') then
                  Inl (Error ''placeOrder: OrderDetails[0].ClientUniqueNo is required.'')
                else if \<not> truthy (property od ''TotalActualWeight'') then
                  Inl (Error ''placeOrder: OrderDetails[0].TotalActualWeight is required.'')
                else
                  let infoEntry = info_entry od
                  in if \<not> truthy infoEntry then
                       Inl (Error ''placeOrder: OrderDetails[0].Info is required.'')
                     else if \<not> truthy (property infoEntry ''Pickup'') then
                       Inl (Error ''placeOrder: Info.Pickup is required.'')
                     else if \<not> truthy (property infoEntry ''Delivery'') then
                       Inl (Error ''placeOrder: Info.Delivery is required.'')
                     else if \<not> isArray (property infoEntry ''Item'')
                             \<or> length (elems (property infoEntry ''Item'')) = 0 then
                       Inl (Error ''placeOrder: Info.Item must be a non-empty array.'')
                     else Inr ())"

text \<open>The body builder. Every failure in it is a TypeError (\<open>None\<close>): a field read on
  \<open>undefined\<close> or \<open>null\<close>, \<open>map\<close> on something that is not an array, or a string
  conversion that throws.\<close>

definition build_pickup :: "jsval \<Rightarrow> jsval option" where
  "build_pickup info =
     do {
       Pickup \<leftarrow> get info ''Pickup'';
       if nullish Pickup then None
       else Some (JObj
         [(''UniqueNo'', js_or (property Pickup ''Mobile'') (JStr '''')),
          (''PersonName'', property Pickup ''PersonName''),
          (''Mobile'', property Pickup ''Mobile''),
          (''AddressType'', js_or (property Pickup ''AddressType'') (JStr ''Home'')),
          (''HouseNo'', js_or (property Pickup ''HouseNo'') (JStr '''')),
          (''Landmark'', js_or (property Pickup ''Landmark'') (JStr '''')),
          (''Address'', property Pickup ''Address''),
          (''Lat'', js_or (property Pickup ''Lat'') (JStr '''')),
          (''Lng'', js_or (property Pickup ''Lng'') (JStr '''')),
          (''Pincode'', property Pickup ''Pincode''),
          (''CashPaid'', js_or (property Pickup ''CashPaid'') (JStr ''0'')),
          (''CashCollection'', js_or (property Pickup ''CashCollection'') (JStr ''0'')),
          (''Comment'', js_or (property Pickup ''Comment'') (JStr '''')),
          (''PickupDate'', js_or (property Pickup ''PickupDate'') (JStr '''')),
          (''PickupSlot'', js_or (property Pickup ''PickupSlot'') (JStr '''')),
          (''RTOName'', js_or (property Pickup ''RTOName'') (property Pickup ''PersonName'')),
          (''RTOMobile'', js_or (property Pickup ''RTOMobile'') (property Pickup ''Mobile'')),
          (''RTOAddr'', js_or (property Pickup ''RTOAddr'') (property Pickup ''Address'')),
          (''RTOPincode'', js_or (property Pickup ''RTOPincode'') (property Pickup ''Pincode''))])
     }"

definition build_item :: "runtime \<Rightarrow> jsval \<Rightarrow> jsval option" where
  "build_item rt item =
     (if nullish item then None
      else do {
        IsFragile \<leftarrow> js_String rt (nullish_coalesce (property item ''IsFragile'') (JStr ''0''));
        IsLiquid \<leftarrow> js_String rt (nullish_coalesce (property item ''IsLiquid'') (JStr ''0''));
        Some (JObj
          [(''Qty'', property item ''Qty''),
           (''Type'', js_or (property item ''Type'') (JStr ''Goods'')),
           (''IsFragile'', IsFragile),
           (''IsLiquid'', IsLiquid),
           (''Name'', js_or (property item ''Name'') JNull),
           (''Cost'', property item ''Cost''),
           (''Length'', js_or (property item ''Length'') (JNum (Fin 0))),
           (''Width'', js_or (property item ''Width'') (JNum (Fin 0))),
           (''Height'', js_or (property item ''Height'') (JNum (Fin 0))),
           (''ActualWeight'', js_or (property item ''ActualWeight'') (JNum (Fin 1))),
           (''EWayBillNo'',
              js_or (property item ''EWayBillNo'')
                (js_or (property item ''EwayBillNo'') (JStr '''')))])
      })"

definition build_delivery :: "runtime \<Rightarrow> jsval \<Rightarrow> jsval option" where
  "build_delivery rt info =
     do {
       Delivery \<leftarrow> get info ''Delivery'';
       if nullish Delivery then None
       else do {
         CashCollection \<leftarrow> parseFloat rt (property Delivery ''CashCollection'');
         Some (JObj
           [(''UniqueNo'', js_or (property Delivery ''Mobile'') (JStr '''')),
            (''PersonName'', property Delivery ''PersonName''),
            (''Mobile'', property Delivery ''Mobile''),
            (''AddressType'', js_or (property Delivery ''AddressType'') (JStr ''Home'')),
            (''HouseNo'', js_or (property Delivery ''HouseNo'') (JStr '''')),
            (''Landmark'', js_or (property Delivery ''Landmark'') (JStr '''')),
            (''Address'', property Delivery ''Address''),
            (''Lat'', js_or (property Delivery ''Lat'') (JStr '''')),
            (''Lng'', js_or (property Delivery ''Lng'') (JStr '''')),
            (''Pincode'', property Delivery ''Pincode''),
            (''CashCollection'', js_or CashCollection (JNum (Fin 0))),
            (''Comment'', js_or (property Delivery ''Comment'') (JStr ''''))])
       }
     }"

text \<open>The callback of \<open>OrderDetails.map\<close>, one detail block to its outgoing form.\<close>

definition build_detail :: "runtime \<Rightarrow> jsval \<Rightarrow> jsval option" where
  "build_detail rt od =
     (if nullish od then None
      else do {
        TotalActualWeight \<leftarrow> js_String rt (property od ''TotalActualWeight'');
        Pickup \<leftarrow> build_pickup (info_entry od);
        Items \<leftarrow> get (info_entry od) ''Item'';
        Item \<leftarrow> Array_map (build_item rt) Items;
        Delivery \<leftarrow> build_delivery rt (info_entry od);
        Some (JObj
          [(''PreAWBNo'', js_or (property od ''PreAWBNo'') (JStr '''')),
           (''ClientUniqueNo'', property od ''ClientUniqueNo''),
           (''VehicleType'', js_or (property od ''VehicleType'') (JStr ''Bike'')),
           (''BrandName'', js_or (property od ''BrandName'') (JStr '''')),
           (''OrderType'', js_or (property od ''OrderType'') (JStr ''B2C'')),
           (''InvoiceNo'', js_or (property od ''InvoiceNo'') (JStr '''')),
           (''InvoiceUrl'', js_or (property od ''InvoiceUrl'') (JStr '''')),
           (''InvoiceValue'', js_or (property od ''InvoiceValue'') (JStr ''0.00'')),
           (''EWAYBillNo'', js_or (property od ''EWAYBillNo'') (JStr '''')),
           (''TotalActualWeight'', TotalActualWeight),
           (''Info'', JArr [JObj [(''Pickup'', Pickup), (''Item'', Item),
                                  (''Delivery'', Delivery)]])])
      })"

definition build_body :: "runtime \<Rightarrow> jsval \<Rightarrow> jsval option" where
  "build_body rt orderPayload =
     do {
       UserId \<leftarrow> js_String rt (property orderPayload ''UserId'');
       OrderDetails \<leftarrow> Array_map (build_detail rt) (property orderPayload ''OrderDetails'');
       Some (JObj [(''UserId'', UserId), (''OrderDetails'', OrderDetails)])
     }"

definition placeOrder ::
  "runtime \<Rightarrow> jsval \<Rightarrow> jsval \<Rightarrow> io \<Rightarrow> (js_error + jsval) \<times> jsval \<times> http_request list" where
  "placeOrder rt cachedToken orderPayload w =
     (case placeOrder_validate orderPayload of
        Inl err \<Rightarrow> (Inl err, cachedToken, [])
      | Inr u \<Rightarrow>
          (case build_body rt orderPayload of
             None \<Rightarrow> (Inl TypeError, cachedToken, [])
           | Some body \<Rightarrow>
               request rt cachedToken
                 ((default_opts ''/backoffice/api/pikndel/place_order'')
                    \<lparr>version := JNum (Fin (16 / 5)), wrapInData := True, data := body\<rparr>) w))"

section \<open>The webhook receiver (routes/orderRoutes.js, models/WebhookResponse.js)\<close>

record http_response =
  res_status :: int
  res_body :: jsval

text \<open>The fields of the schema in models/WebhookResponse.js, holding the values handed
  to \<open>WebhookResponse.create\<close>. What the database driver does with them afterwards
  (casting, the store-assigned times) is outside the repository; the collection is the
  list of the documents whose \<open>create\<close> succeeded.\<close>

record webhook_doc =
  AWBNo :: jsval
  short_code :: jsval
  activity :: jsval
  timestamp :: jsval
  rawPayload :: jsval

text \<open>How \<open>await WebhookResponse.create(...)\<close> settles: it resolves, or rejects with
  an error whose message is given.\<close>

datatype create_outcome = Created | CreateFailed string

datatype status_label = Label string | Inherited string | Unmapped jsval

text \<open>One constructor for each \<open>console\<close> call of the route.\<close>

datatype log_event =
    WarnSecretNotSet
  | WarnMissingSecret
  | WarnInvalidSecret
  | LogSecretVerified
  | LogRule
  | LogIncoming
  | LogAWBNo string
  | LogShortCode string
  | LogActivity string
  | LogTimestamp string
  | LogPayload jsval
  | LogStatus status_label string
  | LogSaved
  | ErrorDb string
  | ErrorProcessing string

record webhook_result =
  wr_response :: http_response
  wr_store :: "webhook_doc list"
  wr_logs :: "log_event list"

datatype verdict = Next | Respond http_response

text \<open>\<open>req.headers\<close> maps a lower-cased header name to its value.\<close>

definition verifyWebhookSecret ::
  "runtime \<Rightarrow> (string \<Rightarrow> string option) \<Rightarrow> verdict \<times> log_event list" where
  "verifyWebhookSecret rt headers =
     (let expectedSecret = env_value rt ''PIKNDEL_WEBHOOK_SECRET'' in
      if \<not> truthy expectedSecret then (Next, [WarnSecretNotSet])
      else
        let incomingSecret =
              (case headers ''x-pikndel-secret'' of Some s \<Rightarrow> JStr s | None \<Rightarrow> JUndefined)
        in if \<not> truthy incomingSecret then
             (Respond \<lparr>res_status = 401,
                       res_body = JObj [(''success'', JBool False),
                                        (''error'', JStr ''Unauthorized: missing webhook secret header.'')]\<rparr>,
              [WarnMissingSecret])
           else if incomingSecret \<noteq> expectedSecret then
             (Respond \<lparr>res_status = 401,
                       res_body = JObj [(''success'', JBool False),
                                        (''error'', JStr ''Unauthorized: invalid webhook secret.'')]\<rparr>,
              [WarnInvalidSecret])
           else (Next, [LogSecretVerified]))"

definition STATUS_MAP :: "(string \<times> string) list" where
  "STATUS_MAP =
     [(''NEW'', ''Order Created''),
      (''PCK'', ''Parcel Picked Up''),
      (''OFD'', ''Out for Delivery''),
      (''DLD'', ''Delivered''),
      (''RTO'', ''Return to Origin Initiated''),
      (''RTN'', ''Returned''),
      (''CAN'', ''Cancelled'')]"

text \<open>The names an object literal inherits from \<open>Object.prototype\<close>: looking one of
  them up in \<open>STATUS_MAP\<close> finds the inherited member, which is truthy.\<close>

definition Object_prototype_keys :: "string list" where
  "Object_prototype_keys =
     [''constructor'', ''hasOwnProperty'', ''isPrototypeOf'', ''propertyIsEnumerable'',
      ''toLocaleString'', ''toString'', ''valueOf'', ''__proto__'', ''__defineGetter__'',
      ''__defineSetter__'', ''__lookupGetter__'', ''__lookupSetter__'']"

text \<open>\<open>STATUS_MAP[short_code] || short_code\<close>; the key is the string of
  \<open>short_code\<close>, and that conversion can throw.\<close>

definition readableStatus :: "runtime \<Rightarrow> jsval \<Rightarrow> status_label option" where
  "readableStatus rt code =
     (case ToString rt code of
        None \<Rightarrow> None
      | Some key \<Rightarrow>
          Some (case map_of STATUS_MAP key of
                  Some l \<Rightarrow> Label l
                | None \<Rightarrow> if key \<in> set Object_prototype_keys then Inherited key
                          else Unmapped code))"

text \<open>The template literals of the four field lines, in order up to the first one whose
  conversion throws; the flag tells whether all of them went through.\<close>

fun field_logs :: "runtime \<Rightarrow> ((string \<Rightarrow> log_event) \<times> jsval) list \<Rightarrow> log_event list \<times> bool" where
  "field_logs rt [] = ([], True)"
| "field_logs rt ((mk, v) # rest) =
     (case ToString rt v of
        None \<Rightarrow> ([], False)
      | Some s \<Rightarrow> (case field_logs rt rest of (ls, ok) \<Rightarrow> (mk s # ls, ok)))"

definition handler_error :: "webhook_doc list \<Rightarrow> log_event list \<Rightarrow> webhook_result" where
  "handler_error st ls =
     \<lparr>wr_response = \<lparr>res_status = 500,
                       res_body = JObj [(''success'', JBool False),
                                        (''error'', JStr ''Webhook handler error.'')]\<rparr>,
      wr_store = st,
      wr_logs = ls @ [ErrorProcessing (error_message TypeError)]\<rparr>"

definition webhook_document :: "jsval \<Rightarrow> webhook_doc" where
  "webhook_document payload =
     \<lparr>AWBNo = property payload ''AWBNo'',
      short_code = property payload ''short_code'',
      activity = property payload ''activity'',
      timestamp = property payload ''timestamp'',
      rawPayload = payload\<rparr>"

text \<open>The handler of \<open>POST /pikndel/status\<close>, run once the middleware has called
  \<open>next()\<close>.\<close>

definition webhook_handler ::
  "runtime \<Rightarrow> jsval \<Rightarrow> create_outcome \<Rightarrow> webhook_doc list \<Rightarrow> webhook_result" where
  "webhook_handler rt req_body_value outcome st =
     (let payload = js_or req_body_value (JObj []) in
      case field_logs rt
             [(LogAWBNo, property payload ''AWBNo''),
              (LogShortCode, property payload ''short_code''),
              (LogActivity, property payload ''activity''),
              (LogTimestamp, property payload ''timestamp'')] of
        (fl, False) \<Rightarrow> handler_error st ([LogRule, LogIncoming] @ fl)
      | (fl, True) \<Rightarrow>
          (let ls = [LogRule, LogIncoming] @ fl @ [LogPayload payload, LogRule] in
           case readableStatus rt (property payload ''short_code'') of
             None \<Rightarrow> handler_error st ls
           | Some label \<Rightarrow>
               (case ToString rt (property payload ''activity'') of
                  None \<Rightarrow> handler_error st ls
                | Some a \<Rightarrow>
                    \<lparr>wr_response = \<lparr>res_status = 200,
                                      res_body = JObj [(''success'', JBool True),
                                                       (''message'', JStr ''Webhook received and saved.'')]\<rparr>,
                     wr_store = (case outcome of
                                   Created \<Rightarrow> st @ [webhook_document payload]
                                 | CreateFailed m \<Rightarrow> st),
                     wr_logs = ls @ [LogStatus label a]
                               @ (case outcome of
                                    Created \<Rightarrow> [LogSaved]
                                  | CreateFailed m \<Rightarrow> [ErrorDb m])\<rparr>)))"

text \<open>\<open>router.post("/pikndel/status", verifyWebhookSecret, handler)\<close>: the handler
  runs only when the middleware called \<open>next()\<close>.\<close>

definition webhook_route ::
  "runtime \<Rightarrow> (string \<Rightarrow> string option) \<Rightarrow> jsval \<Rightarrow> create_outcome \<Rightarrow> webhook_doc list
     \<Rightarrow> webhook_result" where
  "webhook_route rt headers req_body_value outcome st =
     (case verifyWebhookSecret rt headers of
        (Respond r, ls) \<Rightarrow> \<lparr>wr_response = r, wr_store = st, wr_logs = ls\<rparr>
      | (Next, ls) \<Rightarrow>
          (let res = webhook_handler rt req_body_value outcome st
           in res\<lparr>wr_logs := ls @ wr_logs res\<rparr>))"

section \<open>The statements of the specification, as definitions\<close>

text \<open>
  The required fields of an order payload in the order the specification lists them,
  and what it means for one to be missing. A field is present when JavaScript reads it
  as truthy; a list is present when it is a non-empty array. These follow the
  specification's words and are compared with \<open>placeOrder_validate\<close> below.
\<close>

datatype required_field =
    Field_UserId
  | Field_OrderDetails
  | Field_ClientUniqueNo
  | Field_TotalActualWeight
  | Field_Info
  | Field_Pickup
  | Field_Delivery
  | Field_Item

definition spec_first_detail :: "jsval \<Rightarrow> jsval" where
  "spec_first_detail p = first_elem (elems (property p ''OrderDetails''))"

definition spec_info :: "jsval \<Rightarrow> jsval" where
  "spec_info p = info_entry (spec_first_detail p)"

fun spec_missing :: "jsval \<Rightarrow> required_field \<Rightarrow> bool" where
  "spec_missing p Field_UserId = (\<not> truthy (property p ''UserId''))"
| "spec_missing p Field_OrderDetails = (elems (property p ''OrderDetails'') = [])"
| "spec_missing p Field_ClientUniqueNo =
     (\<not> truthy (property (spec_first_detail p) ''ClientUniqueNo''))"
| "spec_missing p Field_TotalActualWeight =
     (\<not> truthy (property (spec_first_detail p) ''TotalActualWeight''))"
| "spec_missing p Field_Info = (\<not> truthy (spec_info p))"
| "spec_missing p Field_Pickup = (\<not> truthy (property (spec_info p) ''Pickup''))"
| "spec_missing p Field_Delivery = (\<not> truthy (property (spec_info p) ''Delivery''))"
| "spec_missing p Field_Item = (elems (property (spec_info p) ''Item'') = [])"

definition spec_check_order :: "required_field list" where
  "spec_check_order =
     [Field_UserId, Field_OrderDetails, Field_ClientUniqueNo, Field_TotalActualWeight,
      Field_Info, Field_Pickup, Field_Delivery, Field_Item]"

definition spec_first_missing :: "jsval \<Rightarrow> required_field option" where
  "spec_first_missing p = find (spec_missing p) spec_check_order"

text \<open>The message that names each field.\<close>

fun validation_message :: "required_field \<Rightarrow> string" where
  "validation_message Field_UserId = ''placeOrder: UserId is required.''"
| "validation_message Field_OrderDetails = ''placeOrder: OrderDetails must be a non-empty array.''"
| "validation_message Field_ClientUniqueNo =
     ''placeOrder: OrderDetails[0].ClientUniqueNo is required.''"
| "validation_message Field_TotalActualWeight =
     ''placeOrder: OrderDetails[0].TotalActualWeight is required.''"
| "validation_message Field_Info = ''placeOrder: OrderDetails[0].Info is required.''"
| "validation_message Field_Pickup = ''placeOrder: Info.Pickup is required.''"
| "validation_message Field_Delivery = ''placeOrder: Info.Delivery is required.''"
| "validation_message Field_Item = ''placeOrder: Info.Item must be a non-empty array.''"

text \<open>An order payload is a structure with detail blocks: it is not \<open>null\<close>, and
  neither is its first detail block when it has one.\<close>

definition order_shaped :: "jsval \<Rightarrow> bool" where
  "order_shaped p =
     (\<not> nullish p \<and> list_all (\<lambda>od. \<not> nullish od) (take 1 (elems (property p ''OrderDetails''))))"

text \<open>The candidate fields of a login response in the order the specification gives
  them; the token is the first one present.\<close>

definition token_candidates :: "jsval \<Rightarrow> jsval list" where
  "token_candidates response =
     [opt_get (opt_get response ''Data'') ''Token'',
      opt_get response ''Token'',
      opt_get response ''token'',
      opt_get response ''access_token'']"

definition spec_token :: "jsval \<Rightarrow> jsval option" where
  "spec_token response = find truthy (token_candidates response)"

text \<open>The item list of a detail block, read the same way from an incoming block and
  from an outgoing one (whose \<open>Info\<close> is a one-element array).\<close>

definition items_of :: "jsval \<Rightarrow> jsval list" where
  "items_of od = elems (property (info_entry od) ''Item'')"

definition pickup_of :: "jsval \<Rightarrow> jsval" where
  "pickup_of od = property (info_entry od) ''Pickup''"

definition delivery_of :: "jsval \<Rightarrow> jsval" where
  "delivery_of od = property (info_entry od) ''Delivery''"

definition details_of :: "jsval \<Rightarrow> jsval list" where
  "details_of p = elems (property p ''OrderDetails'')"

fun is_number :: "jsval \<Rightarrow> bool" where
  "is_number (JNum n) = True"
| "is_number v = False"

fun is_string :: "jsval \<Rightarrow> bool" where
  "is_string (JStr s) = True"
| "is_string v = False"

text \<open>The body of a call \<open>placeOrder\<close> made: the \<open>Data\<close> member of what was sent.\<close>

definition sent_bodies :: "(js_error + jsval) \<times> jsval \<times> http_request list \<Rightarrow> jsval list" where
  "sent_bodies res = map (\<lambda>s. property (req_body s) ''Data'') (snd (snd res))"

text \<open>All four logged fields of a webhook body convert to strings.\<close>

definition printable :: "runtime \<Rightarrow> jsval \<Rightarrow> bool" where
  "printable rt b =
     list_all (\<lambda>k. ToString rt (property (js_or b (JObj [])) k) \<noteq> None)
       [''AWBNo'', ''short_code'', ''activity'', ''timestamp'']"

section \<open>Sample inputs\<close>

text \<open>One runtime for the examples: it prints the two fractional version numbers the
  service uses, and reads a string of decimal digits as that integer and any other
  string as \<open>NaN\<close>, as \<open>parseFloat\<close> and \<open>Number\<close> do on the strings the examples
  hand them.\<close>

definition sample_number_str :: "rat \<Rightarrow> string" where
  "sample_number_str q = (if q = 13 / 10 then ''1.3'' else if q = 16 / 5 then ''3.2'' else ''NaN'')"

definition digit_value :: "char \<Rightarrow> nat" where
  "digit_value c = of_char c - 48"

definition sample_parse :: "string \<Rightarrow> jsnum" where
  "sample_parse s =
     (if s \<noteq> [] \<and> list_all (\<lambda>c. c \<in> set ''0123456789'') s
      then Fin (of_nat (foldl (\<lambda>n c. 10 * n + digit_value c) 0 s))
      else NaN)"

definition sample_runtime :: runtime where
  "sample_runtime =
     \<lparr>env = [''PIKNDEL_WEBHOOK_SECRET'' \<mapsto> ''s3cret'', ''PIKNDEL_USERNAME'' \<mapsto> ''shop'',
             ''PIKNDEL_PASSWORD'' \<mapsto> ''pw''],
      number_str = sample_number_str,
      parse_float = sample_parse,
      string_to_number = sample_parse,
      json_stringify = (\<lambda>v. ''{}'')\<rparr>"

definition sample_pickup :: jsval where
  "sample_pickup =
     JObj [(''PersonName'', JStr ''Test Sender''), (''Mobile'', JStr ''9876543210''),
           (''Address'', JStr ''22, MG Road''), (''Pincode'', JStr ''400008'')]"

definition sample_delivery :: jsval where
  "sample_delivery =
     JObj [(''PersonName'', JStr ''Test Receiver''), (''Mobile'', JStr ''9123456789''),
           (''Address'', JStr ''Kalkaji''), (''Pincode'', JStr ''110019''),
           (''CashCollection'', JStr ''250'')]"

definition sample_item :: jsval where
  "sample_item =
     JObj [(''Qty'', JNum (Fin 1)), (''IsFragile'', JNum (Fin 1)), (''Cost'', JNum (Fin 55000)),
           (''EwayBillNo'', JStr ''EWB1'')]"

definition sample_detail :: "jsval \<Rightarrow> jsval \<Rightarrow> jsval" where
  "sample_detail pickup item =
     JObj [(''ClientUniqueNo'', JStr ''LQ/TEST/3001''), (''TotalActualWeight'', JNum (Fin 1)),
           (''Info'', JArr [JObj [(''Pickup'', pickup), (''Item'', JArr [item]),
                                  (''Delivery'', sample_delivery)]])]"

definition sample_order :: "jsval \<Rightarrow> jsval \<Rightarrow> jsval" where
  "sample_order pickup item =
     JObj [(''UserId'', JStr ''7034''), (''OrderDetails'', JArr [sample_detail pickup item])]"

definition sample_io :: "wire \<Rightarrow> io" where
  "sample_io w = \<lparr>uuid = ''test-order-001'', now_ms = 1652350911000, reply = w\<rparr>"

section \<open>Readings of the outgoing body and further sample inputs\<close>

text \<open>What the code does to a fragile or liquid flag: the string of the supplied value,
  of \<open>"0"\<close> when it is absent or \<open>null\<close>; that string is \<open>"0"\<close> or \<open>"1"\<close> when the
  input was absent, \<open>null\<close>, the number 0 or 1, or one of these two strings.\<close>

definition flag_coerced :: "runtime \<Rightarrow> jsval \<Rightarrow> jsval \<Rightarrow> bool" where
  "flag_coerced rt v out =
     (js_String rt (nullish_coalesce v (JStr ''0'')) = Some out \<and> is_string out
      \<and> (v \<in> set [JUndefined, JNull, JNum (Fin 0), JNum (Fin 1), JStr ''0'', JStr ''1'']
           \<longrightarrow> out \<in> set [JStr ''0'', JStr ''1'']))"

text \<open>What the code does to a pickup cash field: the supplied value when it is truthy,
  the string \<open>"0"\<close> otherwise; a string whenever the input was a string or falsy.\<close>

definition passed_or_default :: "jsval \<Rightarrow> jsval \<Rightarrow> bool" where
  "passed_or_default v out =
     (out = (if truthy v then v else JStr ''0'')
      \<and> (is_string v \<or> \<not> truthy v \<longrightarrow> is_string out))"

text \<open>What the code does to the delivery's cash collection: \<open>parseFloat\<close> of the
  string of the supplied value, and the number 0 when that is \<open>NaN\<close> or zero.\<close>

definition parsed_or_zero :: "runtime \<Rightarrow> jsval \<Rightarrow> jsval \<Rightarrow> bool" where
  "parsed_or_zero rt v out =
     (case ToString rt v of
        None \<Rightarrow> False
      | Some s \<Rightarrow>
          out = JNum (if parse_float rt s = NaN \<or> parse_float rt s = NegZero
                         \<or> parse_float rt s = Fin 0
                      then Fin 0 else parse_float rt s))"

definition fragile_flags :: "jsval \<Rightarrow> jsval list list" where
  "fragile_flags b = map (\<lambda>d. map (\<lambda>i. property i ''IsFragile'') (items_of d)) (details_of b)"

definition liquid_flags :: "jsval \<Rightarrow> jsval list list" where
  "liquid_flags b = map (\<lambda>d. map (\<lambda>i. property i ''IsLiquid'') (items_of d)) (details_of b)"

definition eway_bill_numbers :: "jsval \<Rightarrow> jsval list list" where
  "eway_bill_numbers b = map (\<lambda>d. map (\<lambda>i. property i ''EWayBillNo'') (items_of d)) (details_of b)"

definition pickup_cash_paid :: "jsval \<Rightarrow> jsval list" where
  "pickup_cash_paid b = map (\<lambda>d. property (pickup_of d) ''CashPaid'') (details_of b)"

definition pickup_cash_collection :: "jsval \<Rightarrow> jsval list" where
  "pickup_cash_collection b = map (\<lambda>d. property (pickup_of d) ''CashCollection'') (details_of b)"

definition delivery_cash_collection :: "jsval \<Rightarrow> jsval list" where
  "delivery_cash_collection b = map (\<lambda>d. property (delivery_of d) ''CashCollection'') (details_of b)"

definition authorization_headers ::
  "(js_error + jsval) \<times> jsval \<times> http_request list \<Rightarrow> string option list" where
  "authorization_headers res = map (\<lambda>s. map_of (req_headers s) ''Authorization'') (snd (snd res))"

definition acknowledgement :: http_response where
  "acknowledgement =
     \<lparr>res_status = 200,
      res_body = JObj [(''success'', JBool True), (''message'', JStr ''Webhook received and saved.'')]\<rparr>"

text \<open>A payload whose first detail block lacks \<open>ClientUniqueNo\<close> and, further down the
  check order, \<open>Info.Pickup\<close> and \<open>Info.Item\<close>.\<close>

definition missing_client_no :: jsval where
  "missing_client_no =
     JObj [(''UserId'', JStr ''7034''),
           (''OrderDetails'',
              JArr [JObj [(''TotalActualWeight'', JStr ''1''),
                          (''Info'', JObj [(''Delivery'', sample_delivery)])]])]"




text \<open>The JSON body \<open>{"UserId": "7034", "OrderDetails": [null]}\<close>.\<close>

definition null_detail_order :: jsval where
  "null_detail_order = JObj [(''UserId'', JStr ''7034''), (''OrderDetails'', JArr [JNull])]"

text \<open>The sample order with a delivery that names no \<open>CashCollection\<close>.\<close>

definition order_without_cash_on_delivery :: jsval where
  "order_without_cash_on_delivery =
     JObj [(''UserId'', JStr ''7034''),
           (''OrderDetails'',
              JArr [JObj [(''ClientUniqueNo'', JStr ''LQ/TEST/3001''),
                          (''TotalActualWeight'', JNum (Fin 1)),
                          (''Info'',
                             JArr [JObj [(''Pickup'', sample_pickup),
                                         (''Item'', JArr [sample_item]),
                                         (''Delivery'',
                                            JObj [(''PersonName'', JStr ''Test Receiver''),
                                                  (''Mobile'', JStr ''9123456789''),
                                                  (''Address'', JStr ''Kalkaji''),
                                                  (''Pincode'', JStr ''110019'')])]])]])]"

text \<open>The sample pickup with \<open>CashPaid: 100\<close> and \<open>CashCollection: 50\<close> as numbers,
  and an item with \<open>IsFragile: true\<close> and \<open>IsLiquid: false\<close>.\<close>

definition numeric_cash_pickup :: jsval where
  "numeric_cash_pickup =
     JObj [(''PersonName'', JStr ''Test Sender''), (''Mobile'', JStr ''9876543210''),
           (''Address'', JStr ''22, MG Road''), (''Pincode'', JStr ''400008''),
           (''CashPaid'', JNum (Fin 100)), (''CashCollection'', JNum (Fin 50))]"

definition boolean_flag_item :: jsval where
  "boolean_flag_item =
     JObj [(''Qty'', JNum (Fin 1)), (''IsFragile'', JBool True), (''IsLiquid'', JBool False),
           (''Cost'', JNum (Fin 55000))]"

definition sample_login_response :: jsval where
  "sample_login_response =
     JObj [(''Data'', JObj [(''Token'', JStr ''abc''), (''UserId'', JNum (Fin 7034))]),
           (''Token'', JStr ''top-level''), (''access_token'', JStr ''lowercase'')]"

definition sample_status_opts :: request_opts where
  "sample_status_opts =
     (default_opts ''/backoffice/api/pikndel/order/get_status'')
       \<lparr>wrapInData := True, data := JObj [(''AWBNo'', JStr ''PKD1'')]\<rparr>"

definition sample_push :: jsval where
  "sample_push =
     JObj [(''AWBNo'', JStr ''PKD1''), (''short_code'', JStr ''PCK''),
           (''activity'', JStr ''picked''), (''timestamp'', JNum (Fin 1700000000))]"

definition dev_runtime :: runtime where
  "dev_runtime = sample_runtime\<lparr>env := Map.empty\<rparr>"

section \<open>Lemmas about the JavaScript primitives\<close>

lemma those_map_Some:
  "those (map f xs) = Some ys \<Longrightarrow> list_all2 (\<lambda>x y. f x = Some y) xs ys"
  by (induction xs arbitrary: ys) (auto split: option.splits)

lemma Array_map_Some:
  assumes "Array_map f v = Some out"
  shows "list_all2 (\<lambda>x y. f x = Some y) (elems v) (elems out)"
  using assms by (cases v) (auto simp: Array_map_def dest: those_map_Some)

lemma Number_toString_small:
  "Number_toString rt (Fin 0) = ''0''" "Number_toString rt (Fin 1) = ''1''"
  by (simp_all add: Number_toString_def is_integer_def digits.simps)

lemma elems_isArray: "elems v \<noteq> [] \<Longrightarrow> isArray v"
  by (cases v) auto

lemma ToString_js_or:
  "ToString rt v \<noteq> None \<Longrightarrow> ToString rt (js_or v (JStr s)) \<noteq> None"
  by (simp add: js_or_def)

text \<open>The equations that evaluate the sample inputs.\<close>

lemmas sample_defs =
  sample_order_def sample_detail_def sample_pickup_def sample_item_def sample_delivery_def
  sample_runtime_def sample_io_def sample_parse_def sample_number_str_def digit_value_def

lemmas js_defs =
  nullish_def js_or_def nullish_coalesce_def get_def opt_get_def js_String_def parseFloat_def
  Array_map_def Number_toString_def is_integer_def digits.simps env_value_def info_entry_def

lemmas client_defs =
  axios_def default_opts_def strip_trailing_slash_def BASE_URL_def buildControl_def
  status_error_def handlePikndelResponse_def network_error_def request_headers_def
  request_body_def request_def Let_def

lemmas build_defs =
  placeOrder_validate_def build_pickup_def build_item_def build_delivery_def build_detail_def
  build_body_def

lemmas webhook_defs =
  verifyWebhookSecret_def STATUS_MAP_def Object_prototype_keys_def readableStatus_def
  handler_error_def webhook_document_def webhook_handler_def webhook_route_def printable_def
  acknowledgement_def sample_push_def Let_def

lemmas reading_defs =
  items_of_def pickup_of_def delivery_of_def details_of_def

section \<open>The provider client: responses and the cached token\<close>

lemma request_headers_no_token:
  "request_headers rt JNull a = Some [(''Content-Type'', ''application/json''), (''Accept'', ''application/json'')]"
  by (simp add: request_headers_def)

lemma request_calls:
  assumes "s \<in> set (snd (snd (request rt tok opts w)))"
  shows "request_headers rt tok (auth opts) = Some (req_headers s)"
  using assms
  by (auto simp: request_def Let_def
           split: option.splits axios_result.splits prod.splits sum.splits)

lemma no_authorization_without_token:
  assumes "s \<in> set (snd (snd (request rt JNull opts w)))"
  shows "map_of (req_headers s) ''Authorization'' = None"
proof -
  from request_calls[OF assms]
  have "req_headers s = [(''Content-Type'', ''application/json''), (''Accept'', ''application/json'')]"
    by (simp add: request_headers_no_token)
  then show ?thesis by simp
qed

lemma status_error_cases:
  "status_error rt prefix detail code d = TypeError \<and> ToString rt detail = None
   \<or> (\<exists>m. status_error rt prefix detail code d = PikndelError m code d)"
  by (simp add: status_error_def split: option.splits)

lemma handle_401:
  "snd (handlePikndelResponse rt tok 401 d) = JNull
   \<and> (\<exists>e. fst (handlePikndelResponse rt tok 401 d) = Inl e)
   \<and> (ToString rt (opt_get d ''Message'') \<noteq> None \<longrightarrow>
        (\<exists>m. fst (handlePikndelResponse rt tok 401 d) = Inl (PikndelError m 401 d)))"
  using status_error_cases[of rt "''PIKNDEL Unauthorized (401): ''"
          "js_or (opt_get d ''Message'') (JStr ''Invalid or expired token.'')" 401 d]
        ToString_js_or[of rt "opt_get d ''Message''" "''Invalid or expired token.''"]
  by (auto simp: handlePikndelResponse_def)

lemma handle_other:
  "status \<noteq> 401 \<Longrightarrow> snd (handlePikndelResponse rt tok status d) = tok"
  by (simp add: handlePikndelResponse_def)

lemma handle_error:
  "status \<noteq> 200 \<Longrightarrow> \<exists>e. fst (handlePikndelResponse rt tok status d) = Inl e"
  by (simp add: handlePikndelResponse_def)

lemma request_401:
  assumes "reply w = Reply 401 d" and "snd (snd (request rt tok opts w)) \<noteq> []"
  shows "request rt tok opts w =
           (fst (handlePikndelResponse rt tok 401 d), JNull, snd (snd (request rt tok opts w)))"
  using assms handle_401[of rt tok d]
  by (auto simp: request_def axios_def Let_def split: option.splits prod.splits)

lemma request_token_other:
  assumes "\<forall>d. reply w \<noteq> Reply 401 d"
  shows "fst (snd (request rt tok opts w)) = tok"
proof (cases "reply w")
  case (Reply status d)
  with assms have "status \<noteq> 401" by auto
  with Reply handle_other[of status rt tok d] show ?thesis
    by (auto simp: request_def axios_def Let_def split: option.splits prod.splits sum.splits)
next
  case (NoReply m)
  then show ?thesis
    by (auto simp: request_def axios_def Let_def split: option.splits)
qed

lemma request_fails:
  assumes "\<forall>d. reply w \<noteq> Reply 200 d"
  shows "\<exists>e. fst (request rt tok opts w) = Inl e"
proof (cases "reply w")
  case (Reply status d)
  with assms have "status \<noteq> 200" by auto
  with Reply handle_error[of status rt tok d] show ?thesis
    by (auto simp: request_def axios_def Let_def split: option.splits prod.splits sum.splits)
next
  case (NoReply m)
  then show ?thesis
    by (auto simp: request_def axios_def Let_def split: option.splits)
qed

lemma login_success:
  assumes "login rt tok u p w = (Inr res, tok', calls)"
  shows "truthy tok' \<and> property res ''token'' = tok'"
  using assms
  by (auto simp: login_def Let_def split: if_splits prod.splits sum.splits option.splits)

lemma request_headers_token:
  assumes "truthy t" and "ToString rt t = Some s"
  shows "request_headers rt t True =
           Some [(''Content-Type'', ''application/json''), (''Accept'', ''application/json''),
                 (''Authorization'', ''Bearer '' @ s)]"
  using assms by (simp add: request_headers_def)

text \<open>
  Claim C3. Take any outbound call, with any options, cached token and runtime. When the
  provider answers it with status 401, the cached token becomes \<open>null\<close> and the call fails;
  the failure is the error carrying \<open>statusCode\<close> 401 and the provider's body whenever the
  \<open>Message\<close> of that body converts to a string; every call made from the new state goes
  out without an \<open>Authorization\<close> header; and once a login made from that state has
  succeeded, a call that asks for authentication carries \<open>Bearer\<close> and the new token.
  When the outcome is anything but a 401 response (status 400, 500, any other status, or no
  response at all) the cached token is left as it was, and every outcome other than status
  200 is a failure.
\<close>

theorem unauthorized_clears_token:
  assumes "request rt tok opts w = (r, tok', calls)"
  shows "(reply w = Reply 401 d \<and> calls \<noteq> [] \<longrightarrow>
            tok' = JNull \<and> (\<exists>e. r = Inl e)
            \<and> (ToString rt (opt_get d ''Message'') \<noteq> None \<longrightarrow> (\<exists>m. r = Inl (PikndelError m 401 d)))
            \<and> (\<forall>s \<in> set (snd (snd (request rt tok' opts' w'))).
                  map_of (req_headers s) ''Authorization'' = None)
            \<and> (login rt tok' u p w2 = (Inr res, tok2, calls2) \<and> ToString rt tok2 = Some t \<longrightarrow>
                  request_headers rt tok2 True =
                    Some [(''Content-Type'', ''application/json''), (''Accept'', ''application/json''),
                          (''Authorization'', ''Bearer '' @ t)]))
       \<and> ((\<forall>d. reply w \<noteq> Reply 401 d) \<longrightarrow> tok' = tok)
       \<and> ((\<forall>d. reply w \<noteq> Reply 200 d) \<longrightarrow> (\<exists>e. r = Inl e))"
proof (intro conjI impI)
  assume a: "reply w = Reply 401 d \<and> calls \<noteq> []"
  with assms have eq: "request rt tok opts w =
      (fst (handlePikndelResponse rt tok 401 d), JNull, snd (snd (request rt tok opts w)))"
    using request_401[of w d rt tok opts] by simp
  with assms have r: "r = fst (handlePikndelResponse rt tok 401 d)" and t: "tok' = JNull"
    by simp_all
  show "tok' = JNull" by (rule t)
  show "\<exists>e. r = Inl e" using r handle_401[of rt tok d] by simp
  show "\<exists>m. r = Inl (PikndelError m 401 d)" if "ToString rt (opt_get d ''Message'') \<noteq> None"
    using that r handle_401[of rt tok d] by simp
  show "\<forall>s \<in> set (snd (snd (request rt tok' opts' w'))). map_of (req_headers s) ''Authorization'' = None"
    using t no_authorization_without_token by blast
  show "request_headers rt tok2 True =
          Some [(''Content-Type'', ''application/json''), (''Accept'', ''application/json''),
                (''Authorization'', ''Bearer '' @ t)]"
    if "login rt tok' u p w2 = (Inr res, tok2, calls2) \<and> ToString rt tok2 = Some t"
    using that login_success[of rt tok' u p w2 res tok2 calls2] request_headers_token[of tok2 rt t]
    by simp
next
  assume "\<forall>d. reply w \<noteq> Reply 401 d"
  from request_token_other[OF this, of rt tok opts] assms show "tok' = tok" by simp
next
  assume "\<forall>d. reply w \<noteq> Reply 200 d"
  from request_fails[OF this, of rt tok opts] assms show "\<exists>e. r = Inl e" by simp
qed

text \<open>With the token \<open>abc\<close> cached, a status request goes out with \<open>Bearer abc\<close>; the
  401 answer clears the token and the next call carries no header; a login that returns
  the token \<open>new\<close> caches it and the call after it carries \<open>Bearer new\<close>; a 500
  answer and a timeout leave \<open>abc\<close> in place.\<close>

theorem unauthorized_clears_token_witness:
  "authorization_headers
     (request sample_runtime (JStr ''abc'') sample_status_opts
        (sample_io (Reply 401 (JObj [(''Message'', JStr ''expired'')])))) = [Some ''Bearer abc'']
   \<and> request sample_runtime (JStr ''abc'') sample_status_opts
        (sample_io (Reply 401 (JObj [(''Message'', JStr ''expired'')]))) =
       (Inl (PikndelError ''PIKNDEL Unauthorized (401): expired'' 401
               (JObj [(''Message'', JStr ''expired'')])),
        JNull,
        snd (snd (request sample_runtime (JStr ''abc'') sample_status_opts
                    (sample_io (Reply 401 (JObj [(''Message'', JStr ''expired'')]))))))
   \<and> authorization_headers
        (request sample_runtime JNull sample_status_opts (sample_io (Reply 200 JNull))) = [None]
   \<and> fst (snd (login sample_runtime JNull JUndefined JUndefined
                  (sample_io (Reply 200 (JObj [(''Token'', JStr ''new'')]))))) = JStr ''new''
   \<and> authorization_headers
        (request sample_runtime (JStr ''new'') sample_status_opts (sample_io (Reply 200 JNull)))
         = [Some ''Bearer new'']
   \<and> fst (snd (request sample_runtime (JStr ''abc'') sample_status_opts
                  (sample_io (Reply 500 JNull)))) = JStr ''abc''
   \<and> fst (snd (request sample_runtime (JStr ''abc'') sample_status_opts
                  (sample_io (NoReply ''timeout of 15000ms exceeded'')))) = JStr ''abc''"
  using unauthorized_clears_token[where rt = sample_runtime and tok = "JStr ''abc''"
          and opts = sample_status_opts
          and w = "sample_io (Reply 401 (JObj [(''Message'', JStr ''expired'')]))"
          and r = "fst (request sample_runtime (JStr ''abc'') sample_status_opts
                 (sample_io (Reply 401 (JObj [(''Message'', JStr ''expired'')]))))"
          and tok' = "fst (snd (request sample_runtime (JStr ''abc'') sample_status_opts
                 (sample_io (Reply 401 (JObj [(''Message'', JStr ''expired'')])))))"
          and calls = "snd (snd (request sample_runtime (JStr ''abc'') sample_status_opts
                 (sample_io (Reply 401 (JObj [(''Message'', JStr ''expired'')])))))"
          and d = "JObj [(''Message'', JStr ''expired'')]"
          and opts' = sample_status_opts and w' = "sample_io (Reply 200 JNull)"
          and u = JUndefined and p = JUndefined
          and ?w2.0 = "sample_io (Reply 200 (JObj [(''Token'', JStr ''new'')]))"
          and res = "JObj [(''token'', JStr ''new''), (''userId'', JNull), (''name'', JNull)]"
          and ?tok2.0 = "JStr ''new''"
          and ?calls2.0 = "snd (snd (login sample_runtime JNull JUndefined JUndefined
                  (sample_io (Reply 200 (JObj [(''Token'', JStr ''new'')])))))"
          and t = "''new''"]
  by (simp add: sample_defs js_defs client_defs authorization_headers_def sample_status_opts_def
        login_def extract_token_def)

subsection \<open>login\<close>

lemma extract_token_spec:
  "extract_token response =
     (case spec_token response of Some t \<Rightarrow> t | None \<Rightarrow> opt_get response ''access_token'')"
  by (simp add: extract_token_def spec_token_def token_candidates_def js_or_def)

lemma spec_token_truthy: "spec_token response = Some t \<Longrightarrow> truthy t"
  by (auto simp: spec_token_def dest: find_Some_iff[THEN iffD1])

lemma spec_token_None: "spec_token response = None \<Longrightarrow> \<not> truthy (opt_get response ''access_token'')"
  by (simp add: spec_token_def token_candidates_def split: if_splits)

lemma request_200:
  assumes "reply w = Reply 200 response" and "request_headers rt tok (auth opts) \<noteq> None"
    and "ToString rt (version opts) \<noteq> None"
  shows "fst (request rt tok opts w) = Inr response \<and> fst (snd (request rt tok opts w)) = tok
       \<and> length (snd (snd (request rt tok opts w))) = 1"
  using assms
  by (auto simp: request_def request_body_def buildControl_def axios_def handlePikndelResponse_def
        Let_def split: option.splits)

text \<open>
  Claim C4. When credentials are resolved and the provider answers the login call with
  status 200, the token is the first present (truthy) value among \<open>Data.Token\<close>,
  \<open>Token\<close>, \<open>token\<close> and \<open>access_token\<close>, tried in this order: it becomes the
  cached token and is the \<open>token\<close> that \<open>login\<close> returns. When none of the four is
  present, \<open>login\<close> fails with the error saying that no token was returned and the cached
  token is left as it was.
\<close>

theorem login_token_order:
  assumes "login rt tok u p w = (r, tok', calls)"
    and "reply w = Reply 200 response"
    and "truthy (js_or u (env_value rt ''PIKNDEL_USERNAME''))"
    and "truthy (js_or p (env_value rt ''PIKNDEL_PASSWORD''))"
  shows "case spec_token response of
           None \<Rightarrow> r = Inl (Error ''Login succeeded but no JWT token was returned by PIKNDEL.'')
                   \<and> tok' = tok
         | Some t \<Rightarrow> tok' = t \<and> (\<forall>res. r = Inr res \<longrightarrow> property res ''token'' = t)
                     \<and> (\<forall>e. r = Inl e \<longrightarrow> e = TypeError)"
proof -
  let ?opts = "(default_opts ''/backoffice/api/account/login'')
                 \<lparr>version := JNum (Fin (13 / 10)), auth := False, wrapInData := True,
                  data := JObj [(''Username'', js_or u (env_value rt ''PIKNDEL_USERNAME'')),
                                (''Password'', js_or p (env_value rt ''PIKNDEL_PASSWORD'')),
                                (''GrantType'', JStr ''password'')]\<rparr>"
  have "request_headers rt tok (auth ?opts) \<noteq> None" "ToString rt (version ?opts) \<noteq> None"
    by (simp_all add: request_headers_def default_opts_def)
  with request_200[OF assms(2), of rt tok ?opts]
  obtain calls0 where req: "request rt tok ?opts w = (Inr response, tok, calls0)"
    by (cases "request rt tok ?opts w") auto
  show ?thesis
  proof (cases "spec_token response")
    case None
    with spec_token_None[OF None] have "\<not> truthy (extract_token response)"
      by (simp add: extract_token_spec)
    with assms req None show ?thesis
      by (simp add: login_def Let_def)
  next
    case (Some t)
    then have t: "extract_token response = t" "truthy t"
      by (simp_all add: extract_token_spec spec_token_truthy)
    with assms req Some show ?thesis
      by (auto simp: login_def Let_def split: option.splits)
  qed
qed

text \<open>A response with \<open>Data.Token\<close>, \<open>Token\<close> and \<open>access_token\<close> all set yields the
  nested one; a response without any of them fails.\<close>

theorem login_token_order_witness:
  "spec_token sample_login_response = Some (JStr ''abc'')
   \<and> fst (snd (login sample_runtime JNull JUndefined JUndefined
                  (sample_io (Reply 200 sample_login_response)))) = JStr ''abc''
   \<and> fst (login sample_runtime JNull JUndefined JUndefined
             (sample_io (Reply 200 sample_login_response))) =
       Inr (JObj [(''token'', JStr ''abc''), (''userId'', JNum (Fin 7034)), (''name'', JNull)])
   \<and> fst (login sample_runtime (JStr ''old'') JUndefined JUndefined
             (sample_io (Reply 200 (JObj [(''Data'', JObj [])])))) =
       Inl (Error ''Login succeeded but no JWT token was returned by PIKNDEL.'')"
  using login_token_order[of sample_runtime JNull JUndefined JUndefined
          "sample_io (Reply 200 sample_login_response)"
          "fst (login sample_runtime JNull JUndefined JUndefined
                  (sample_io (Reply 200 sample_login_response)))"
          "fst (snd (login sample_runtime JNull JUndefined JUndefined
                  (sample_io (Reply 200 sample_login_response))))"
          "snd (snd (login sample_runtime JNull JUndefined JUndefined
                  (sample_io (Reply 200 sample_login_response))))"
          sample_login_response]
        login_token_order[of sample_runtime "JStr ''old''" JUndefined JUndefined
          "sample_io (Reply 200 (JObj [(''Data'', JObj [])]))"
          "fst (login sample_runtime (JStr ''old'') JUndefined JUndefined
                  (sample_io (Reply 200 (JObj [(''Data'', JObj [])]))))"
          "fst (snd (login sample_runtime (JStr ''old'') JUndefined JUndefined
                  (sample_io (Reply 200 (JObj [(''Data'', JObj [])])))))"
          "snd (snd (login sample_runtime (JStr ''old'') JUndefined JUndefined
                  (sample_io (Reply 200 (JObj [(''Data'', JObj [])])))))"
          "JObj [(''Data'', JObj [])]"]
  by (simp add: sample_defs js_defs client_defs login_def extract_token_def spec_token_def
        token_candidates_def sample_login_response_def)

section \<open>placeOrder: validation\<close>

lemma validate_refines_spec:
  assumes "order_shaped p"
  shows "placeOrder_validate p =
           (case spec_first_missing p of
              Some f \<Rightarrow> Inl (Error (validation_message f))
            | None \<Rightarrow> Inr ())"
proof -
  from assms have p: "\<not> nullish p" by (simp add: order_shaped_def)
  have od: "\<not> nullish (spec_first_detail p)" if "elems (property p ''OrderDetails'') \<noteq> []"
    using that assms
    by (cases "elems (property p ''OrderDetails'')") (auto simp: order_shaped_def spec_first_detail_def)
  have fold: "first_elem (elems (property p ''OrderDetails'')) = spec_first_detail p"
    by (simp add: spec_first_detail_def)
  show ?thesis
  proof (cases "elems (property p ''OrderDetails'') = []")
    case True
    with p show ?thesis
      by (simp add: placeOrder_validate_def spec_first_missing_def spec_check_order_def Let_def)
  next
    case False
    with od have "\<not> nullish (spec_first_detail p)" by simp
    moreover from False have "isArray (property p ''OrderDetails'')" by (rule elems_isArray)
    ultimately show ?thesis using p False
      by (simp add: placeOrder_validate_def spec_first_missing_def spec_check_order_def
        Let_def spec_info_def fold elems_isArray)
  qed
qed

text \<open>
  On every payload that is not \<open>null\<close> and whose first detail block, when there is one,
  is not \<open>null\<close>, the validation is the specification's ordered check: \<open>placeOrder\<close>
  fails with the error whose message names the first missing field in the order UserId,
  OrderDetails, ClientUniqueNo, TotalActualWeight, Info, Pickup, Delivery, Item, the cached
  token is untouched and no call is made; when no field is missing the validation passes.
\<close>

lemma validation_order_when_shaped:
  assumes "order_shaped p"
  shows "case spec_first_missing p of
           Some f \<Rightarrow> placeOrder rt tok p w = (Inl (Error (validation_message f)), tok, [])
         | None \<Rightarrow> placeOrder_validate p = Inr ()"
  using validate_refines_spec[OF assms]
  by (simp add: placeOrder_def split: option.splits)

text \<open>A payload that lacks \<open>ClientUniqueNo\<close>, \<open>Info.Pickup\<close> and \<open>Info.Item\<close> is
  rejected for \<open>ClientUniqueNo\<close>, the first of the three in the check order.\<close>

lemma validation_order_example:
  "order_shaped missing_client_no
   \<and> spec_first_missing missing_client_no = Some Field_ClientUniqueNo
   \<and> placeOrder sample_runtime JNull missing_client_no (sample_io (Reply 200 JNull)) =
       (Inl (Error ''placeOrder: OrderDetails[0].ClientUniqueNo is required.''), JNull, [])"
proof -
  have shaped: "order_shaped missing_client_no"
    by (simp add: order_shaped_def missing_client_no_def nullish_def)
  have first: "spec_first_missing missing_client_no = Some Field_ClientUniqueNo"
    by (simp add: spec_first_missing_def spec_check_order_def spec_first_detail_def spec_info_def
          missing_client_no_def info_entry_def sample_delivery_def)
  from validation_order_when_shaped[OF shaped, of sample_runtime JNull "sample_io (Reply 200 JNull)"]
  show ?thesis using shaped first by simp
qed

text \<open>
  Claim C1 says that every payload missing a required field is rejected with the error
  that names the first missing field. The code does not do so on the payload
  \<open>{"UserId": "7034", "OrderDetails": [null]}\<close>: the first missing field is the first
  detail's \<open>ClientUniqueNo\<close>, and \<open>placeOrder\<close> throws a TypeError, because
  \<open>od.ClientUniqueNo\<close> is read on \<open>null\<close> before any check of \<open>od\<close> itself (the
  entry of \<open>Info\<close> is checked before its fields are read; \<open>od\<close> is not). A
  \<open>null\<close> payload, whose first missing field is \<open>UserId\<close>, throws a TypeError at the
  destructuring in the same way. No call is made in either case.
\<close>

theorem null_detail_block_type_error:
  "spec_first_missing null_detail_order = Some Field_ClientUniqueNo
   \<and> placeOrder rt tok null_detail_order w = (Inl TypeError, tok, [])
   \<and> spec_first_missing JNull = Some Field_UserId
   \<and> placeOrder rt tok JNull w = (Inl TypeError, tok, [])"
  by (simp add: null_detail_order_def spec_first_missing_def spec_check_order_def
        spec_first_detail_def spec_info_def info_entry_def placeOrder_def placeOrder_validate_def
        nullish_def Let_def)

theorem null_detail_block_type_error_witness:
  "spec_first_missing null_detail_order = Some Field_ClientUniqueNo
   \<and> placeOrder sample_runtime JNull null_detail_order (sample_io (Reply 200 JNull)) =
       (Inl TypeError, JNull, [])
   \<and> placeOrder sample_runtime JNull JNull (sample_io (Reply 200 JNull)) =
       (Inl TypeError, JNull, [])"
  using null_detail_block_type_error[of sample_runtime JNull "sample_io (Reply 200 JNull)"]
  by simp

section \<open>placeOrder: the body that is sent\<close>

lemma request_sent_body:
  assumes "s \<in> set (snd (snd (request rt tok opts w)))" and "wrapInData opts"
  shows "property (req_body s) ''Data'' = data opts"
  using assms
  by (auto simp: request_def request_body_def Let_def
           split: option.splits axios_result.splits prod.splits sum.splits if_splits)

lemma placeOrder_sent:
  assumes "b \<in> set (sent_bodies (placeOrder rt tok p w))"
  shows "placeOrder_validate p = Inr () \<and> build_body rt p = Some b"
proof -
  from assms obtain s where s: "s \<in> set (snd (snd (placeOrder rt tok p w)))"
    and b: "b = property (req_body s) ''Data''"
    by (auto simp: sent_bodies_def)
  show ?thesis
  proof (cases "placeOrder_validate p")
    case (Inl e)
    with s show ?thesis by (simp add: placeOrder_def)
  next
    case (Inr u)
    show ?thesis
    proof (cases "build_body rt p")
      case None
      with Inr s show ?thesis by (simp add: placeOrder_def)
    next
      case (Some body)
      with Inr s have "property (req_body s) ''Data'' = body"
        using request_sent_body[of s rt tok _ w]
        by (simp add: placeOrder_def default_opts_def)
      with Some Inr b show ?thesis by simp
    qed
  qed
qed

lemma placeOrder_sends:
  "sent_bodies (placeOrder rt JNull p w)
     = (case placeOrder_validate p of
          Inl e \<Rightarrow> []
        | Inr u \<Rightarrow> (case build_body rt p of None \<Rightarrow> [] | Some b \<Rightarrow> [b]))"
  by (simp add: placeOrder_def sent_bodies_def request_def request_headers_def request_body_def
        buildControl_def axios_def default_opts_def Let_def
        split: option.splits sum.splits wire.splits prod.splits)

lemma build_body_details:
  assumes "build_body rt p = Some b"
  shows "list_all2 (\<lambda>od out. build_detail rt od = Some out) (details_of p) (details_of b)"
  using assms
  by (auto simp: build_body_def details_of_def js_String_def
           split: Option.bind_splits dest: Array_map_Some)

lemma build_detail_info:
  assumes "build_detail rt od = Some out"
  shows "\<exists>P I D. info_entry out = JObj [(''Pickup'', P), (''Item'', I), (''Delivery'', D)]
           \<and> build_pickup (info_entry od) = Some P
           \<and> list_all2 (\<lambda>x y. build_item rt x = Some y) (items_of od) (elems I)
           \<and> build_delivery rt (info_entry od) = Some D"
  using assms
  by (auto simp: build_detail_def info_entry_def items_of_def get_def
           split: Option.bind_splits if_splits dest: Array_map_Some)

lemma sent_items:
  assumes "b \<in> set (sent_bodies (placeOrder rt tok p w))"
    and step: "\<And>item out. build_item rt item = Some out \<Longrightarrow> Q item out"
  shows "list_all2 (\<lambda>od out. list_all2 Q (items_of od) (items_of out)) (details_of p) (details_of b)"
proof -
  from assms(1) have "build_body rt p = Some b" by (simp add: placeOrder_sent)
  then have "list_all2 (\<lambda>od out. build_detail rt od = Some out) (details_of p) (details_of b)"
    by (rule build_body_details)
  then show ?thesis
  proof (rule list_all2_mono)
    fix od out
    assume "build_detail rt od = Some out"
    then obtain P I D where out: "info_entry out = JObj [(''Pickup'', P), (''Item'', I), (''Delivery'', D)]"
      and items: "list_all2 (\<lambda>x y. build_item rt x = Some y) (items_of od) (elems I)"
      using build_detail_info by blast
    from out have "items_of out = elems I" by (simp add: items_of_def)
    with items have "list_all2 (\<lambda>x y. build_item rt x = Some y) (items_of od) (items_of out)"
      by simp
    then show "list_all2 Q (items_of od) (items_of out)"
      by (rule list_all2_mono) (rule step)
  qed
qed

lemma sent_details:
  assumes "b \<in> set (sent_bodies (placeOrder rt tok p w))"
    and step: "\<And>od out. build_pickup (info_entry od) = Some (pickup_of out) \<Longrightarrow>
                 build_delivery rt (info_entry od) = Some (delivery_of out) \<Longrightarrow> Q od out"
  shows "list_all2 Q (details_of p) (details_of b)"
proof -
  from assms(1) have "build_body rt p = Some b" by (simp add: placeOrder_sent)
  then have "list_all2 (\<lambda>od out. build_detail rt od = Some out) (details_of p) (details_of b)"
    by (rule build_body_details)
  then show ?thesis
  proof (rule list_all2_mono)
    fix od out
    assume "build_detail rt od = Some out"
    then obtain P I D where out: "info_entry out = JObj [(''Pickup'', P), (''Item'', I), (''Delivery'', D)]"
      and P: "build_pickup (info_entry od) = Some P"
      and D: "build_delivery rt (info_entry od) = Some D"
      using build_detail_info by blast
    from out have "pickup_of out = P" "delivery_of out = D"
      by (simp_all add: pickup_of_def delivery_of_def)
    with P D show "Q od out" by (simp add: step)
  qed
qed

subsection \<open>Cash fields\<close>

lemma build_pickup_cash:
  assumes "build_pickup info = Some P"
  shows "property P ''CashPaid'' = js_or (property (property info ''Pickup'') ''CashPaid'') (JStr ''0'')
       \<and> property P ''CashCollection'' = js_or (property (property info ''Pickup'') ''CashCollection'') (JStr ''0'')"
  using assms
  by (auto simp: build_pickup_def get_def split: Option.bind_splits if_splits)

lemma passed_or_default_js_or: "passed_or_default v (js_or v (JStr ''0''))"
  by (cases v) (auto simp: passed_or_default_def js_or_def)

lemma build_delivery_cash:
  assumes "build_delivery rt info = Some D"
  shows "parsed_or_zero rt (property (property info ''Delivery'') ''CashCollection'')
           (property D ''CashCollection'')
       \<and> is_number (property D ''CashCollection'')"
proof -
  from assms obtain c where c: "parseFloat rt (property (property info ''Delivery'') ''CashCollection'') = Some c"
    and D: "property D ''CashCollection'' = js_or c (JNum (Fin 0))"
    by (auto simp: build_delivery_def get_def split: Option.bind_splits if_splits)
  from c obtain s where s: "ToString rt (property (property info ''Delivery'') ''CashCollection'') = Some s"
    and cs: "c = JNum (parse_float rt s)"
    by (auto simp: parseFloat_def)
  from D cs have "property D ''CashCollection'' =
      JNum (if parse_float rt s = NaN \<or> parse_float rt s = NegZero \<or> parse_float rt s = Fin 0
            then Fin 0 else parse_float rt s)"
    by (simp add: js_or_def)
  with s show ?thesis by (simp add: parsed_or_zero_def)
qed

text \<open>
  Claim C2, as amended. In every body \<open>placeOrder\<close> sends, each detail block has
  \<open>Delivery.CashCollection\<close> as a number, whatever the input supplied: \<open>parseFloat\<close>
  of the supplied value, and 0 when that is \<open>NaN\<close> or zero; its
  \<open>Pickup.CashPaid\<close> and \<open>Pickup.CashCollection\<close> are the values the input supplied
  when these are truthy and the string \<open>"0"\<close> otherwise, hence strings whenever the input
  supplied a string, a falsy value or nothing.
\<close>

theorem cash_field_types:
  assumes "b \<in> set (sent_bodies (placeOrder rt tok p w))"
  shows "list_all2 (\<lambda>od out.
            parsed_or_zero rt (property (delivery_of od) ''CashCollection'')
              (property (delivery_of out) ''CashCollection'')
          \<and> is_number (property (delivery_of out) ''CashCollection'')
          \<and> passed_or_default (property (pickup_of od) ''CashPaid'') (property (pickup_of out) ''CashPaid'')
          \<and> passed_or_default (property (pickup_of od) ''CashCollection'')
               (property (pickup_of out) ''CashCollection''))
          (details_of p) (details_of b)"
  using assms
proof (rule sent_details)
  fix od out
  assume P: "build_pickup (info_entry od) = Some (pickup_of out)"
    and D: "build_delivery rt (info_entry od) = Some (delivery_of out)"
  from build_pickup_cash[OF P] build_delivery_cash[OF D]
  show "parsed_or_zero rt (property (delivery_of od) ''CashCollection'')
              (property (delivery_of out) ''CashCollection'')
          \<and> is_number (property (delivery_of out) ''CashCollection'')
          \<and> passed_or_default (property (pickup_of od) ''CashPaid'') (property (pickup_of out) ''CashPaid'')
          \<and> passed_or_default (property (pickup_of od) ''CashCollection'')
               (property (pickup_of out) ''CashCollection'')"
    by (simp add: pickup_of_def delivery_of_def passed_or_default_js_or)
qed

text \<open>The sample order, with \<open>Delivery.CashCollection: "250"\<close> and no pickup cash
  fields, is sent with the number 250 and the strings \<open>"0"\<close>; the order whose delivery
  names no \<open>CashCollection\<close> is sent with the number 0.\<close>

theorem cash_field_types_witness:
  "map delivery_cash_collection
     (sent_bodies (placeOrder sample_runtime JNull (sample_order sample_pickup sample_item)
        (sample_io (Reply 200 JNull)))) = [[JNum (Fin 250)]]
   \<and> map delivery_cash_collection
     (sent_bodies (placeOrder sample_runtime JNull order_without_cash_on_delivery
        (sample_io (Reply 200 JNull)))) = [[JNum (Fin 0)]]
   \<and> map pickup_cash_paid
     (sent_bodies (placeOrder sample_runtime JNull (sample_order sample_pickup sample_item)
        (sample_io (Reply 200 JNull)))) = [[JStr ''0'']]
   \<and> map pickup_cash_collection
     (sent_bodies (placeOrder sample_runtime JNull (sample_order sample_pickup sample_item)
        (sample_io (Reply 200 JNull)))) = [[JStr ''0'']]"
  using cash_field_types[of
     "hd (sent_bodies (placeOrder sample_runtime JNull (sample_order sample_pickup sample_item)
        (sample_io (Reply 200 JNull))))"
     sample_runtime JNull "sample_order sample_pickup sample_item" "sample_io (Reply 200 JNull)"]
    cash_field_types[of
     "hd (sent_bodies (placeOrder sample_runtime JNull order_without_cash_on_delivery
        (sample_io (Reply 200 JNull))))"
     sample_runtime JNull order_without_cash_on_delivery "sample_io (Reply 200 JNull)"]
  by (simp add: placeOrder_sends sample_defs js_defs build_defs reading_defs pickup_cash_paid_def
        pickup_cash_collection_def delivery_cash_collection_def order_without_cash_on_delivery_def)

text \<open>Claim C2 as stated fails: a valid order whose pickup has \<open>CashPaid: 100\<close> and
  \<open>CashCollection: 50\<close> as numbers is sent with these two numbers, not with strings.\<close>

theorem numeric_pickup_cash_counterexample:
  "placeOrder_validate (sample_order numeric_cash_pickup sample_item) = Inr ()
   \<and> map pickup_cash_paid
     (sent_bodies (placeOrder sample_runtime JNull (sample_order numeric_cash_pickup sample_item)
        (sample_io (Reply 200 JNull)))) = [[JNum (Fin 100)]]
   \<and> map pickup_cash_collection
     (sent_bodies (placeOrder sample_runtime JNull (sample_order numeric_cash_pickup sample_item)
        (sample_io (Reply 200 JNull)))) = [[JNum (Fin 50)]]"
  by (simp add: placeOrder_sends sample_defs js_defs build_defs reading_defs pickup_cash_paid_def pickup_cash_collection_def delivery_cash_collection_def numeric_cash_pickup_def)

subsection \<open>Item flags\<close>

lemma flag_coerced_String:
  assumes "js_String rt (nullish_coalesce v (JStr ''0'')) = Some out"
  shows "flag_coerced rt v out"
proof -
  from assms have "is_string out" by (auto simp: js_String_def)
  moreover have "out \<in> set [JStr ''0'', JStr ''1'']"
    if "v \<in> set [JUndefined, JNull, JNum (Fin 0), JNum (Fin 1), JStr ''0'', JStr ''1'']"
    using that assms
    by (auto simp: js_String_def nullish_coalesce_def nullish_def Number_toString_small)
  ultimately show ?thesis using assms by (simp add: flag_coerced_def)
qed

lemma build_item_flags:
  assumes "build_item rt item = Some out"
  shows "flag_coerced rt (property item ''IsFragile'') (property out ''IsFragile'')
       \<and> flag_coerced rt (property item ''IsLiquid'') (property out ''IsLiquid'')"
proof -
  from assms obtain f l where
    f: "js_String rt (nullish_coalesce (property item ''IsFragile'') (JStr ''0'')) = Some f" and
    l: "js_String rt (nullish_coalesce (property item ''IsLiquid'') (JStr ''0'')) = Some l" and
    out: "property out ''IsFragile'' = f" "property out ''IsLiquid'' = l"
    by (auto simp: build_item_def split: Option.bind_splits if_splits)
  with flag_coerced_String show ?thesis by simp
qed

text \<open>
  Claim C7, as amended. In every body \<open>placeOrder\<close> sends, the \<open>IsFragile\<close> and
  \<open>IsLiquid\<close> of every item of every detail block are strings: the string conversion of
  the supplied value, or of \<open>"0"\<close> when the input has none or \<open>null\<close>. They are \<open>"0"\<close>
  or \<open>"1"\<close> when the input was absent, \<open>null\<close>, the number 0 or 1, or the string
  \<open>"0"\<close> or \<open>"1"\<close>.
\<close>

theorem item_flags_are_strings:
  assumes "b \<in> set (sent_bodies (placeOrder rt tok p w))"
  shows "list_all2 (\<lambda>od out. list_all2 (\<lambda>item out_item.
            flag_coerced rt (property item ''IsFragile'') (property out_item ''IsFragile'')
          \<and> flag_coerced rt (property item ''IsLiquid'') (property out_item ''IsLiquid''))
          (items_of od) (items_of out)) (details_of p) (details_of b)"
  using assms by (rule sent_items) (rule build_item_flags)

text \<open>The sample item, with \<open>IsFragile: 1\<close> and no \<open>IsLiquid\<close>, is sent with
  \<open>"1"\<close> and \<open>"0"\<close>.\<close>

theorem item_flags_are_strings_witness:
  "map fragile_flags
     (sent_bodies (placeOrder sample_runtime JNull (sample_order sample_pickup sample_item)
        (sample_io (Reply 200 JNull)))) = [[[JStr ''1'']]]
   \<and> map liquid_flags
     (sent_bodies (placeOrder sample_runtime JNull (sample_order sample_pickup sample_item)
        (sample_io (Reply 200 JNull)))) = [[[JStr ''0'']]]"
  using item_flags_are_strings[of
     "hd (sent_bodies (placeOrder sample_runtime JNull (sample_order sample_pickup sample_item)
        (sample_io (Reply 200 JNull))))"
     sample_runtime JNull "sample_order sample_pickup sample_item" "sample_io (Reply 200 JNull)"]
  by (simp add: placeOrder_sends sample_defs js_defs build_defs reading_defs fragile_flags_def liquid_flags_def)

text \<open>Claim C7 as stated fails: the booleans \<open>true\<close> and \<open>false\<close> are sent as the
  strings \<open>"true"\<close> and \<open>"false"\<close>.\<close>

theorem boolean_flag_counterexample:
  "map fragile_flags
     (sent_bodies (placeOrder sample_runtime JNull (sample_order sample_pickup boolean_flag_item)
        (sample_io (Reply 200 JNull)))) = [[[JStr ''true'']]]
   \<and> map liquid_flags
     (sent_bodies (placeOrder sample_runtime JNull (sample_order sample_pickup boolean_flag_item)
        (sample_io (Reply 200 JNull)))) = [[[JStr ''false'']]]"
  by (simp add: placeOrder_sends sample_defs js_defs build_defs reading_defs fragile_flags_def liquid_flags_def boolean_flag_item_def)

subsection \<open>The e-way bill number\<close>

lemma build_item_eway:
  assumes "build_item rt item = Some out"
  shows "property out ''EWayBillNo'' =
           js_or (property item ''EWayBillNo'') (js_or (property item ''EwayBillNo'') (JStr ''''))"
  using assms
  by (auto simp: build_item_def split: Option.bind_splits if_splits)

text \<open>
  Claim C8. In every body \<open>placeOrder\<close> sends, the \<open>EWayBillNo\<close> of every item of
  every detail block is the input item's \<open>EWayBillNo\<close> when that is present (truthy),
  otherwise the input item's \<open>EwayBillNo\<close> when that is present, otherwise the empty
  string.
\<close>

theorem eway_bill_aliases:
  assumes "b \<in> set (sent_bodies (placeOrder rt tok p w))"
  shows "list_all2 (\<lambda>od out. list_all2 (\<lambda>item out_item.
            property out_item ''EWayBillNo'' =
              (if truthy (property item ''EWayBillNo'') then property item ''EWayBillNo''
               else if truthy (property item ''EwayBillNo'') then property item ''EwayBillNo''
               else JStr '''')) (items_of od) (items_of out)) (details_of p) (details_of b)"
  using assms by (rule sent_items) (simp add: build_item_eway js_or_def)

text \<open>The sample item carries the number under \<open>EwayBillNo\<close> only, and it is sent as
  \<open>EWayBillNo\<close>.\<close>

theorem eway_bill_aliases_witness:
  "map eway_bill_numbers
     (sent_bodies (placeOrder sample_runtime JNull (sample_order sample_pickup sample_item)
        (sample_io (Reply 200 JNull)))) = [[[JStr ''EWB1'']]]"
  using eway_bill_aliases[of
     "hd (sent_bodies (placeOrder sample_runtime JNull (sample_order sample_pickup sample_item)
        (sample_io (Reply 200 JNull))))"
     sample_runtime JNull "sample_order sample_pickup sample_item" "sample_io (Reply 200 JNull)"]
  by (simp add: placeOrder_sends sample_defs js_defs build_defs reading_defs eway_bill_numbers_def)

subsection \<open>Detail blocks after the first\<close>










section \<open>The webhook receiver\<close>

lemma field_logs_ok:
  "snd (field_logs rt fs) = list_all (\<lambda>f. ToString rt (snd f) \<noteq> None) fs"
  by (induction fs) (auto split: option.splits prod.splits)

lemma printable_fields:
  assumes "printable rt b"
  shows "\<exists>fl. field_logs rt
             [(LogAWBNo, property (js_or b (JObj [])) ''AWBNo''),
              (LogShortCode, property (js_or b (JObj [])) ''short_code''),
              (LogActivity, property (js_or b (JObj [])) ''activity''),
              (LogTimestamp, property (js_or b (JObj [])) ''timestamp'')] = (fl, True)"
    and "readableStatus rt (property (js_or b (JObj [])) ''short_code'') \<noteq> None"
    and "ToString rt (property (js_or b (JObj [])) ''activity'') \<noteq> None"
proof -
  let ?fs = "[(LogAWBNo, property (js_or b (JObj [])) ''AWBNo''),
              (LogShortCode, property (js_or b (JObj [])) ''short_code''),
              (LogActivity, property (js_or b (JObj [])) ''activity''),
              (LogTimestamp, property (js_or b (JObj [])) ''timestamp'')]"
  from assms have "snd (field_logs rt ?fs)"
    unfolding field_logs_ok by (simp add: printable_def)
  then show "\<exists>fl. field_logs rt ?fs = (fl, True)"
    by (cases "field_logs rt ?fs") simp
  from assms show "readableStatus rt (property (js_or b (JObj [])) ''short_code'') \<noteq> None"
    by (auto simp: printable_def readableStatus_def split: option.splits)
  from assms show "ToString rt (property (js_or b (JObj [])) ''activity'') \<noteq> None"
    by (simp add: printable_def)
qed

lemma handler_response_independent:
  "wr_response (webhook_handler rt b o1 st) = wr_response (webhook_handler rt b o2 st)"
  by (simp add: webhook_handler_def handler_error_def Let_def
        split: prod.splits bool.splits option.splits)

lemma handler_printable:
  assumes "printable rt b"
  shows "wr_response (webhook_handler rt b out st) = acknowledgement"
    and "wr_store (webhook_handler rt b out st) =
           (case out of Created \<Rightarrow> st @ [webhook_document (js_or b (JObj []))]
            | CreateFailed m \<Rightarrow> st)"
    and "out = CreateFailed m \<Longrightarrow> ErrorDb m \<in> set (wr_logs (webhook_handler rt b out st))"
  using printable_fields[OF assms]
  by (auto simp: webhook_handler_def acknowledgement_def Let_def split: option.splits)

lemma handler_store:
  "wr_store (webhook_handler rt b out st) = st
   \<or> wr_store (webhook_handler rt b out st) = st @ [webhook_document (js_or b (JObj []))]"
  by (auto simp: webhook_handler_def handler_error_def Let_def
        split: prod.splits bool.splits option.splits create_outcome.splits)

lemma route_next:
  assumes "fst (verifyWebhookSecret rt headers) = Next"
  shows "wr_response (webhook_route rt headers b out st) = wr_response (webhook_handler rt b out st)"
    and "wr_store (webhook_route rt headers b out st) = wr_store (webhook_handler rt b out st)"
    and "set (wr_logs (webhook_handler rt b out st)) \<subseteq> set (wr_logs (webhook_route rt headers b out st))"
  using assms
  by (auto simp: webhook_route_def Let_def split: prod.splits verdict.splits)

lemma route_store:
  "wr_store (webhook_route rt headers b out st) = st
   \<or> wr_store (webhook_route rt headers b out st) = st @ [webhook_document (js_or b (JObj []))]"
  using handler_store[of rt b out st]
  by (auto simp: webhook_route_def Let_def split: prod.splits verdict.splits)

text \<open>
  Claim C6. When no secret is configured (\<open>PIKNDEL_WEBHOOK_SECRET\<close> unset or empty) the
  middleware calls \<open>next()\<close> and the route answers and stores what the handler does. When a
  secret is configured and the \<open>x-pikndel-secret\<close> header is missing, empty or different,
  the route answers 401 with \<open>success: false\<close> and an \<open>error\<close> string, and the
  collection is left as it was, whatever the database would have done.
\<close>

theorem webhook_secret_check:
  "(\<not> truthy (env_value rt ''PIKNDEL_WEBHOOK_SECRET'') \<longrightarrow>
      verifyWebhookSecret rt headers = (Next, [WarnSecretNotSet])
      \<and> wr_response (webhook_route rt headers b out st) = wr_response (webhook_handler rt b out st)
      \<and> wr_store (webhook_route rt headers b out st) = wr_store (webhook_handler rt b out st))
   \<and> (env rt ''PIKNDEL_WEBHOOK_SECRET'' = Some secret \<and> secret \<noteq> []
        \<and> headers ''x-pikndel-secret'' \<noteq> Some secret \<longrightarrow>
      res_status (wr_response (webhook_route rt headers b out st)) = 401
      \<and> property (res_body (wr_response (webhook_route rt headers b out st))) ''success'' = JBool False
      \<and> is_string (property (res_body (wr_response (webhook_route rt headers b out st))) ''error'')
      \<and> wr_store (webhook_route rt headers b out st) = st)"
proof (intro conjI impI)
  assume a: "\<not> truthy (env_value rt ''PIKNDEL_WEBHOOK_SECRET'')"
  then show v: "verifyWebhookSecret rt headers = (Next, [WarnSecretNotSet])"
    by (simp add: verifyWebhookSecret_def)
  then have n: "fst (verifyWebhookSecret rt headers) = Next" by simp
  show "wr_response (webhook_route rt headers b out st) = wr_response (webhook_handler rt b out st)"
    by (rule route_next(1)[OF n])
  show "wr_store (webhook_route rt headers b out st) = wr_store (webhook_handler rt b out st)"
    by (rule route_next(2)[OF n])
next
  assume a: "env rt ''PIKNDEL_WEBHOOK_SECRET'' = Some secret \<and> secret \<noteq> []
        \<and> headers ''x-pikndel-secret'' \<noteq> Some secret"
  then have "\<exists>r ls. verifyWebhookSecret rt headers = (Respond r, ls) \<and> res_status r = 401
      \<and> property (res_body r) ''success'' = JBool False \<and> is_string (property (res_body r) ''error'')"
    by (auto simp: verifyWebhookSecret_def env_value_def Let_def split: option.splits)
  then obtain r ls where v: "verifyWebhookSecret rt headers = (Respond r, ls)" and r: "res_status r = 401"
      "property (res_body r) ''success'' = JBool False" "is_string (property (res_body r) ''error'')"
    by blast
  from v have route: "webhook_route rt headers b out st = \<lparr>wr_response = r, wr_store = st, wr_logs = ls\<rparr>"
    by (simp add: webhook_route_def)
  show "res_status (wr_response (webhook_route rt headers b out st)) = 401" using route r by simp
  show "property (res_body (wr_response (webhook_route rt headers b out st))) ''success'' = JBool False"
    using route r by simp
  show "is_string (property (res_body (wr_response (webhook_route rt headers b out st))) ''error'')"
    using route r by simp
  show "wr_store (webhook_route rt headers b out st) = st" using route by simp
qed

text \<open>With the secret \<open>s3cret\<close> configured, a push without the header and a push with
  a wrong one are answered 401 and nothing is stored; without a configured secret the same
  push is acknowledged and stored.\<close>

theorem webhook_secret_check_witness:
  "res_status (wr_response (webhook_route sample_runtime Map.empty sample_push Created [])) = 401
   \<and> wr_store (webhook_route sample_runtime Map.empty sample_push Created []) = []
   \<and> res_status (wr_response (webhook_route sample_runtime [''x-pikndel-secret'' \<mapsto> ''guess'']
         sample_push Created [])) = 401
   \<and> wr_store (webhook_route sample_runtime [''x-pikndel-secret'' \<mapsto> ''guess''] sample_push
         Created []) = []
   \<and> wr_response (webhook_route dev_runtime Map.empty sample_push Created []) = acknowledgement
   \<and> wr_store (webhook_route dev_runtime Map.empty sample_push Created []) =
        [webhook_document sample_push]"
  using webhook_secret_check[of sample_runtime Map.empty sample_push Created "[]" "''s3cret''"]
        webhook_secret_check[of sample_runtime "[''x-pikndel-secret'' \<mapsto> ''guess'']" sample_push
          Created "[]" "''s3cret''"]
        webhook_secret_check[of dev_runtime Map.empty sample_push Created "[]" "''s3cret''"]
  by (simp add: sample_defs js_defs webhook_defs dev_runtime_def)

text \<open>
  Claim C5. Once the secret check has passed, the response does not depend on whether
  \<open>WebhookResponse.create\<close> succeeds or fails; and when the four logged fields of the
  body convert to strings, so that the handler reaches the persistence step, the response is
  200 with a success body in both cases, a failing \<open>create\<close> leaves the collection as it
  was and its message is logged.
\<close>

theorem webhook_acknowledges_despite_persistence_failure:
  assumes "fst (verifyWebhookSecret rt headers) = Next"
  shows "wr_response (webhook_route rt headers b (CreateFailed m) st) =
           wr_response (webhook_route rt headers b Created st)
       \<and> (printable rt b \<longrightarrow>
            wr_response (webhook_route rt headers b (CreateFailed m) st) = acknowledgement
          \<and> wr_response (webhook_route rt headers b Created st) = acknowledgement
          \<and> wr_store (webhook_route rt headers b (CreateFailed m) st) = st
          \<and> ErrorDb m \<in> set (wr_logs (webhook_route rt headers b (CreateFailed m) st)))"
proof (intro conjI impI)
  show "wr_response (webhook_route rt headers b (CreateFailed m) st) =
           wr_response (webhook_route rt headers b Created st)"
    using handler_response_independent[of rt b "CreateFailed m" st Created]
    by (simp add: route_next(1)[OF assms])
next
  assume p: "printable rt b"
  show "wr_response (webhook_route rt headers b (CreateFailed m) st) = acknowledgement"
    by (simp add: route_next(1)[OF assms] handler_printable(1)[OF p])
  show "wr_response (webhook_route rt headers b Created st) = acknowledgement"
    by (simp add: route_next(1)[OF assms] handler_printable(1)[OF p])
  show "wr_store (webhook_route rt headers b (CreateFailed m) st) = st"
    by (simp add: route_next(2)[OF assms] handler_printable(2)[OF p])
  show "ErrorDb m \<in> set (wr_logs (webhook_route rt headers b (CreateFailed m) st))"
    using route_next(3)[OF assms, of b "CreateFailed m" st] handler_printable(3)[OF p, of "CreateFailed m" m st]
    by auto
qed

text \<open>A push with the right secret whose \<open>create\<close> fails is acknowledged with 200,
  nothing is stored and the last log entry is the database error.\<close>

theorem webhook_acknowledges_witness:
  "fst (verifyWebhookSecret sample_runtime [''x-pikndel-secret'' \<mapsto> ''s3cret'']) = Next
   \<and> printable sample_runtime sample_push
   \<and> wr_response (webhook_route sample_runtime [''x-pikndel-secret'' \<mapsto> ''s3cret''] sample_push
         (CreateFailed ''buffering timed out'') []) = acknowledgement
   \<and> wr_store (webhook_route sample_runtime [''x-pikndel-secret'' \<mapsto> ''s3cret''] sample_push
         (CreateFailed ''buffering timed out'') []) = []
   \<and> last (wr_logs (webhook_route sample_runtime [''x-pikndel-secret'' \<mapsto> ''s3cret''] sample_push
         (CreateFailed ''buffering timed out'') [])) = ErrorDb ''buffering timed out''"
  using webhook_acknowledges_despite_persistence_failure[of sample_runtime
          "[''x-pikndel-secret'' \<mapsto> ''s3cret'']" sample_push "''buffering timed out''" "[]"]
  by (simp add: sample_defs js_defs webhook_defs)

lemma label_differs: "map_of STATUS_MAP code = Some label \<Longrightarrow> label \<noteq> code"
  by (auto simp: STATUS_MAP_def split: if_splits)

lemma raw_is_not_label:
  assumes "readableStatus rt v = Some (Label label)"
  shows "v \<noteq> JStr label"
proof
  assume "v = JStr label"
  with assms have "map_of STATUS_MAP label = Some label"
    by (simp add: readableStatus_def split: option.splits if_splits)
  then show False using label_differs by blast
qed

text \<open>
  Claim C10. The route never stores anything but the collection as it was, or that
  collection followed by one document whose \<open>short_code\<close> is the incoming
  \<open>short_code\<close> and whose \<open>rawPayload\<close> is the body; that \<open>short_code\<close> is never
  the label the lookup table gives for it. Every push that passes the secret check, reaches
  the persistence step and is saved adds exactly such a document.
\<close>

theorem persisted_short_code_is_raw:
  "(wr_store (webhook_route rt headers b out st) = st
    \<or> (\<exists>d. wr_store (webhook_route rt headers b out st) = st @ [d]
            \<and> short_code d = property (js_or b (JObj [])) ''short_code''
            \<and> rawPayload d = js_or b (JObj [])
            \<and> (\<forall>label. readableStatus rt (property (js_or b (JObj [])) ''short_code'')
                           = Some (Label label) \<longrightarrow> short_code d \<noteq> JStr label)))
   \<and> (fst (verifyWebhookSecret rt headers) = Next \<and> printable rt b \<longrightarrow>
        (\<exists>d. wr_store (webhook_route rt headers b Created st) = st @ [d]
            \<and> short_code d = property (js_or b (JObj [])) ''short_code''))"
proof (intro conjI impI)
  show "wr_store (webhook_route rt headers b out st) = st
    \<or> (\<exists>d. wr_store (webhook_route rt headers b out st) = st @ [d]
            \<and> short_code d = property (js_or b (JObj [])) ''short_code''
            \<and> rawPayload d = js_or b (JObj [])
            \<and> (\<forall>label. readableStatus rt (property (js_or b (JObj [])) ''short_code'')
                           = Some (Label label) \<longrightarrow> short_code d \<noteq> JStr label))"
    using route_store[of rt headers b out st] raw_is_not_label[of rt "property (js_or b (JObj [])) ''short_code''"]
    by (auto simp: webhook_document_def)
next
  assume a: "fst (verifyWebhookSecret rt headers) = Next \<and> printable rt b"
  then have "wr_store (webhook_route rt headers b Created st) = st @ [webhook_document (js_or b (JObj []))]"
    by (simp add: route_next(2) handler_printable(2))
  then show "\<exists>d. wr_store (webhook_route rt headers b Created st) = st @ [d]
            \<and> short_code d = property (js_or b (JObj [])) ''short_code''"
    by (simp add: webhook_document_def)
qed

text \<open>The push with \<open>short_code: "PCK"\<close> is stored with \<open>"PCK"\<close>, while the label
  \<open>Parcel Picked Up\<close> goes to the log.\<close>

theorem persisted_short_code_is_raw_witness:
  "map short_code (wr_store (webhook_route sample_runtime [''x-pikndel-secret'' \<mapsto> ''s3cret'']
       sample_push Created [])) = [JStr ''PCK'']
   \<and> readableStatus sample_runtime (JStr ''PCK'') = Some (Label ''Parcel Picked Up'')
   \<and> LogStatus (Label ''Parcel Picked Up'') ''picked''
       \<in> set (wr_logs (webhook_route sample_runtime [''x-pikndel-secret'' \<mapsto> ''s3cret'']
                 sample_push Created []))"
  using persisted_short_code_is_raw[of sample_runtime "[''x-pikndel-secret'' \<mapsto> ''s3cret'']"
          sample_push Created "[]"]
  by (simp add: sample_defs js_defs webhook_defs)

end
